theory Spec2Isabelle
  imports Complex_Main "HOL-Library.Multiset" "HOL-Library.Log_Nat"
begin

section \<open>Data model of the wallet ledger\<close>

text \<open>
  The embedding follows \<^verbatim>\<open>src/repositories/moneyRepo/transaction.repository.ts\<close>.
  A JavaScript number is a binary64 value. The model has \<open>NaN\<close> and the finite values:
  \<open>Num x\<close> stands for the binary64 value equal to the real \<open>x\<close>. Negative zero does not occur:
  \<^verbatim>\<open>parseFloat(x.toString())\<close> gives zero for it, and a sum or difference of the values that
  occur is never negative zero. The two infinities are not values of the model: the amount
  and the balance are taken to be finite, and a theorem that states a computed value says
  that the value is finite. \<^verbatim>\<open>parseFloat(x.toString())\<close> gives back a number \<open>x\<close> and gives
  \<open>NaN\<close> for a value that is not numeric, so the balance column and the amount are values
  of this type and are used as they are. A \<open>Date\<close> is its time value, an integer.
\<close>

datatype number = NaN | Num real

fun isNaN :: "number \<Rightarrow> bool" where
  "isNaN NaN = True"
| "isNaN (Num _) = False"

text \<open>Rounding of a real to binary64, to the nearest value with ties to the even one:
  \<open>rne\<close> rounds to an integer, \<open>exponent x\<close> is the integer part of the binary logarithm of
  \<open>\<bar>x\<bar>\<close>, computed from the bit length of an integer, \<open>quantum x\<close> is the distance between
  neighbouring binary64 values at the magnitude of \<open>x\<close> (53 significant bits, and never
  below \<open>2 powi - 1074\<close>), and \<open>round64\<close> rounds to a multiple of it. \<open>max_double\<close> is the largest
  finite value; a result beyond it is an infinity in JavaScript and is not described by
  \<open>round64\<close>.\<close>

definition rne :: "real \<Rightarrow> int" where
  "rne y = (let n = \<lfloor>y\<rfloor> in
            if y - of_int n < 1 / 2 then n
            else if 1 / 2 < y - of_int n then n + 1
            else if even n then n else n + 1)"

definition exponent :: "real \<Rightarrow> int" where
  "exponent x =
     (if 1 \<le> \<bar>x\<bar> then bitlen \<lfloor>\<bar>x\<bar>\<rfloor> - 1 else - bitlen (\<lceil>1 / \<bar>x\<bar>\<rceil> - 1))"

definition quantum :: "real \<Rightarrow> real" where
  "quantum x = 2 powi (max (exponent x - 52) (- 1074))"

definition round64 :: "real \<Rightarrow> real" where
  "round64 x = (if x = 0 then 0 else of_int (rne (x / quantum x)) * quantum x)"

definition max_double :: real where
  "max_double = (2 ^ 53 - 1) * 2 ^ 971"

definition binary64 :: "real \<Rightarrow> bool" where
  "binary64 x \<longleftrightarrow> round64 x = x \<and> \<bar>x\<bar> \<le> max_double"

text \<open>The operators \<^verbatim>\<open><\<close>, \<^verbatim>\<open>+\<close> and \<^verbatim>\<open>-\<close> on numbers: a comparison with \<open>NaN\<close> is false,
  arithmetic on \<open>NaN\<close> is \<open>NaN\<close>, and a sum or a difference is the exact one rounded to
  binary64.\<close>

fun lt :: "number \<Rightarrow> number \<Rightarrow> bool" where
  "lt (Num a) (Num b) = (a < b)"
| "lt _ _ = False"

fun add :: "number \<Rightarrow> number \<Rightarrow> number" where
  "add (Num a) (Num b) = Num (round64 (a + b))"
| "add _ _ = NaN"

fun sub :: "number \<Rightarrow> number \<Rightarrow> number" where
  "sub (Num a) (Num b) = Num (round64 (a - b))"
| "sub _ _ = NaN"

text \<open>Modelled from the spec: the enums \<^verbatim>\<open>TransactionType\<close> and \<^verbatim>\<open>TransactionStatus\<close> are
  imported by the repository and declared elsewhere. The source names three members of the
  first; every further member is \<open>OTHER\<close>. The spec gives the members of the second as
  examples.\<close>

datatype TransactionType = PAY_SERVICE | DEPOSIT | REFUND_SERVICE | OTHER string

datatype TransactionStatus = PENDING | COMPLETED | FAILED

text \<open>The first parameter of \<^verbatim>\<open>createTransactionRepo\<close>, and the row that
  \<^verbatim>\<open>TransactionModel.create\<close> stores from it.\<close>

record data =
  walletId :: int
  amount :: number
  status :: TransactionStatus
  type :: TransactionType
  referenceId :: "string option"

record TransactionAttributes = data +
  row_id :: int
  isDeleted :: bool
  createdAt :: int

text \<open>Modelled from the spec: the model \<^verbatim>\<open>Wallet\<close> is declared elsewhere; the source reads
  its primary key and reads and writes its balance, which is taken to be never null.\<close>

record Wallet =
  wallet_id :: int
  balance :: number

text \<open>Modelled from the spec: the class \<^verbatim>\<open>ErrorType\<close> is declared elsewhere; the source
  constructs it from a name, a message and an optional code. A value caught by a
  \<^verbatim>\<open>catch\<close> block is read through the same three properties, each of which may be
  undefined.\<close>

record ErrorType =
  name :: "string option"
  message :: "string option"
  code :: "string option"

definition new_ErrorType :: "string \<Rightarrow> string \<Rightarrow> ErrorType" where
  "new_ErrorType n m = \<lparr>name = Some n, message = Some m, code = None\<rparr>"

text \<open>\<^verbatim>\<open>x || d\<close> on an optional string: \<open>d\<close> when \<open>x\<close> is undefined or empty.\<close>

definition or_default :: "string option \<Rightarrow> string \<Rightarrow> string" where
  "or_default x d = (case x of None \<Rightarrow> d | Some s \<Rightarrow> if s = [] then d else s)"

text \<open>The truth value of an optional string: undefined, null and the empty string are
  falsy.\<close>

definition truthy :: "string option \<Rightarrow> bool" where
  "truthy x = (case x of None \<Rightarrow> False | Some s \<Rightarrow> s \<noteq> [])"

text \<open>Modelled from the spec: the tables behind \<^verbatim>\<open>Wallet\<close> and \<^verbatim>\<open>TransactionModel\<close> and the
  connection \<^verbatim>\<open>sequelizeSystem\<close> are declared elsewhere. The two tables are lists of rows. A
  unit of work (a Sequelize transaction) carries the tables as its statements see them,
  and its lifecycle state; its writes reach the committed tables when it is committed.\<close>

record database =
  wallets :: "Wallet list"
  transactions :: "TransactionAttributes list"

datatype uow_state = Active | Committed | RolledBack

record uow =
  view :: database
  state :: uow_state

datatype call = Begin | Commit | Rollback

text \<open>What the storage layer answers during one call: the key and the timestamp it gives
  a new row, and for each awaited storage call the value it throws, if it throws.\<close>

record env =
  new_id :: int
  now :: int
  findByPk_fault :: "ErrorType option"
  findOne_fault :: "ErrorType option"
  begin_fault :: "ErrorType option"
  create_fault :: "ErrorType option"
  save_fault :: "ErrorType option"
  commit_fault :: "ErrorType option"
  rollback_fault :: "ErrorType option"

record outcome =
  result :: "ErrorType + TransactionAttributes"
  committed :: database
  caller_uow :: "uow option"
  own_uow :: "uow option"
  lifecycle :: "call list"

section \<open>createTransactionRepo\<close>

text \<open>A statement issued with \<^verbatim>\<open>{ transaction: t }\<close> reads the view of \<open>t\<close>; with
  \<^verbatim>\<open>transaction: undefined\<close> it reads the committed tables.\<close>

definition reads :: "uow option \<Rightarrow> database \<Rightarrow> database" where
  "reads t db = (case t of None \<Rightarrow> db | Some u \<Rightarrow> view u)"

definition findByPk :: "env \<Rightarrow> int \<Rightarrow> uow option \<Rightarrow> database \<Rightarrow> ErrorType + Wallet option" where
  "findByPk e i t db =
     (case findByPk_fault e of
        Some err \<Rightarrow> Inl err
      | None \<Rightarrow> Inr (find (\<lambda>w. wallet_id w = i) (wallets (reads t db))))"

definition findOne ::
  "env \<Rightarrow> string option \<Rightarrow> TransactionType \<Rightarrow> uow option \<Rightarrow> database
   \<Rightarrow> ErrorType + TransactionAttributes option" where
  "findOne e r ty t db =
     (case findOne_fault e of
        Some err \<Rightarrow> Inl err
      | None \<Rightarrow> Inr (find (\<lambda>x. referenceId x = r \<and> type x = ty \<and> \<not> isDeleted x)
                      (transactions (reads t db))))"

definition begin_uow :: "env \<Rightarrow> database \<Rightarrow> ErrorType + uow" where
  "begin_uow e db =
     (case begin_fault e of
        Some err \<Rightarrow> Inl err
      | None \<Rightarrow> Inr \<lparr>view = db, state = Active\<rparr>)"

definition new_row :: "env \<Rightarrow> data \<Rightarrow> TransactionAttributes" where
  "new_row e d =
     \<lparr>walletId = walletId d, amount = amount d, status = status d, type = type d,
      referenceId = referenceId d, row_id = new_id e, isDeleted = False, createdAt = now e\<rparr>"

definition create :: "env \<Rightarrow> data \<Rightarrow> uow \<Rightarrow> ErrorType + (TransactionAttributes \<times> uow)" where
  "create e d u =
     (case create_fault e of
        Some err \<Rightarrow> Inl err
      | None \<Rightarrow>
          Inr (new_row e d,
               u\<lparr>view := (view u)\<lparr>transactions := transactions (view u) @ [new_row e d]\<rparr>\<rparr>))"

definition set_balance :: "int \<Rightarrow> number \<Rightarrow> Wallet list \<Rightarrow> Wallet list" where
  "set_balance i b ws = map (\<lambda>w. if wallet_id w = i then w\<lparr>balance := b\<rparr> else w) ws"

definition save :: "env \<Rightarrow> Wallet \<Rightarrow> uow \<Rightarrow> ErrorType + uow" where
  "save e w u =
     (case save_fault e of
        Some err \<Rightarrow> Inl err
      | None \<Rightarrow>
          Inr (u\<lparr>view := (view u)\<lparr>wallets := set_balance (wallet_id w) (balance w)
                                                   (wallets (view u))\<rparr>\<rparr>))"

text \<open>Lines 25 to 61: the wallet lookup, the duplicate check and the two numeric checks.
  On success the wallet instance and the two parsed numbers go to the second half.\<close>

definition validate ::
  "env \<Rightarrow> data \<Rightarrow> uow option \<Rightarrow> database \<Rightarrow> ErrorType + (Wallet \<times> number \<times> number)" where
  "validate e d t db =
     (case findByPk e (walletId d) t db of
        Inl err \<Rightarrow> Inl err
      | Inr None \<Rightarrow> Inl (new_ErrorType ''NotFoundError'' ''Wallet not found'')
      | Inr (Some wallet) \<Rightarrow>
          (case (if truthy (referenceId d)
                 then findOne e (referenceId d) (type d) t db
                 else Inr None) of
             Inl err \<Rightarrow> Inl err
           | Inr (Some existingTransaction) \<Rightarrow>
               Inl (new_ErrorType ''DuplicateTransactionError''
                      (''Transaction already exists for reference ''
                       @ or_default (referenceId d) []))
           | Inr None \<Rightarrow>
               (if isNaN (balance wallet) \<or> isNaN (amount d)
                then Inl (new_ErrorType ''InvalidDataError'' ''Balance or amount is invalid'')
                else if lt (amount d) (Num 0)
                then Inl (new_ErrorType ''InvalidAmountError'' ''Amount cannot be negative'')
                else Inr (wallet, balance wallet, amount d))))"

text \<open>Lines 89 to 107: the branch on the type, which assigns the new balance to the wallet
  instance or throws.\<close>

definition update_balance :: "data \<Rightarrow> Wallet \<Rightarrow> number \<Rightarrow> number \<Rightarrow> ErrorType + Wallet" where
  "update_balance d wallet bal amt =
     (if type d = PAY_SERVICE
      then (if lt bal amt
            then Inl (new_ErrorType ''InsufficientFundsError'' ''Insufficient wallet balance'')
            else Inr (wallet\<lparr>balance := sub bal amt\<rparr>))
      else if type d = DEPOSIT \<or> type d = REFUND_SERVICE
      then Inr (wallet\<lparr>balance := add bal amt\<rparr>)
      else Inl (new_ErrorType ''InvalidTypeError''
                  ''Transaction type must be PAY_SERVICE or DEPOSIT''))"

text \<open>Lines 67 to 109, the body of the inner \<^verbatim>\<open>try\<close> up to the save, under the unit of
  work \<open>u\<close>. The unit of work is returned as the statements left it, also on a throw.\<close>

definition try_body ::
  "env \<Rightarrow> data \<Rightarrow> Wallet \<Rightarrow> number \<Rightarrow> number \<Rightarrow> uow
   \<Rightarrow> (ErrorType + TransactionAttributes) \<times> uow" where
  "try_body e d wallet bal amt u =
     (case create e d u of
        Inl err \<Rightarrow> (Inl err, u)
      | Inr (newTransaction, u1) \<Rightarrow>
          (case update_balance d wallet bal amt of
             Inl err \<Rightarrow> (Inl err, u1)
           | Inr wallet' \<Rightarrow>
               (case save e wallet' u1 of
                  Inl err \<Rightarrow> (Inl err, u1)
                | Inr u2 \<Rightarrow> (Inr newTransaction, u2))))"

text \<open>The inner \<^verbatim>\<open>catch\<close> for a unit of work the call opened: roll back, then rethrow. A
  rollback discards what the unit of work wrote; a rollback that throws replaces the
  error and leaves the unit of work as it was.\<close>

definition rollback_own :: "env \<Rightarrow> ErrorType \<Rightarrow> database \<Rightarrow> uow \<Rightarrow> call list \<Rightarrow> outcome" where
  "rollback_own e err db u cs =
     (case rollback_fault e of
        Some err' \<Rightarrow>
          \<lparr>result = Inl err', committed = db, caller_uow = None, own_uow = Some u,
           lifecycle = cs @ [Rollback]\<rparr>
      | None \<Rightarrow>
          \<lparr>result = Inl err, committed = db, caller_uow = None,
           own_uow = Some \<lparr>view = db, state = RolledBack\<rparr>, lifecycle = cs @ [Rollback]\<rparr>)"

text \<open>Lines 64 to 123: the unit of work is the caller's or a new one; only a new one is
  committed or rolled back.\<close>

definition perform ::
  "env \<Rightarrow> data \<Rightarrow> Wallet \<Rightarrow> number \<Rightarrow> number \<Rightarrow> uow option \<Rightarrow> database \<Rightarrow> outcome" where
  "perform e d wallet bal amt t db =
     (case t of
        Some u \<Rightarrow>
          (case try_body e d wallet bal amt u of
             (r, u') \<Rightarrow>
               \<lparr>result = r, committed = db, caller_uow = Some u', own_uow = None,
                lifecycle = []\<rparr>)
      | None \<Rightarrow>
          (case begin_uow e db of
             Inl err \<Rightarrow>
               \<lparr>result = Inl err, committed = db, caller_uow = None, own_uow = None,
                lifecycle = [Begin]\<rparr>
           | Inr u \<Rightarrow>
               (case try_body e d wallet bal amt u of
                  (Inl err, u') \<Rightarrow> rollback_own e err db u' [Begin]
                | (Inr newTransaction, u') \<Rightarrow>
                    (case commit_fault e of
                       Some err \<Rightarrow> rollback_own e err db u' [Begin, Commit]
                     | None \<Rightarrow>
                         \<lparr>result = Inr newTransaction, committed = view u',
                          caller_uow = None, own_uow = Some (u'\<lparr>state := Committed\<rparr>),
                          lifecycle = [Begin, Commit]\<rparr>))))"

text \<open>The outer \<^verbatim>\<open>catch\<close> (lines 124 to 130) builds a new \<^verbatim>\<open>ErrorType\<close> from whatever was
  thrown.\<close>

definition rethrow :: "ErrorType \<Rightarrow> ErrorType" where
  "rethrow error =
     \<lparr>name = Some (or_default (name error) ''TransactionCreationError''),
      message = Some (or_default (message error) ''Failed to create transaction''),
      code = code error\<rparr>"

definition createTransactionRepo :: "env \<Rightarrow> data \<Rightarrow> uow option \<Rightarrow> database \<Rightarrow> outcome" where
  "createTransactionRepo e d t db =
     (case validate e d t db of
        Inl err \<Rightarrow>
          \<lparr>result = Inl (rethrow err), committed = db, caller_uow = t, own_uow = None,
           lifecycle = []\<rparr>
      | Inr (wallet, bal, amt) \<Rightarrow>
          (let out = perform e d wallet bal amt t db
           in out\<lparr>result := (case result out of
                                Inl err \<Rightarrow> Inl (rethrow err)
                              | Inr newTransaction \<Rightarrow> Inr newTransaction)\<rparr>))"

section \<open>getListTransactionRepo\<close>

text \<open>The filter object. \<open>page\<close> and \<open>limit\<close> are whole numbers, as the routes of the
  repository document them. The members of the two enums are taken to be non-empty
  strings, so a supplied status or type is truthy; a \<open>Date\<close> is an object and always
  truthy; a wallet id is a number, and \<open>0\<close> is falsy.\<close>

record filters =
  walletId' :: "int option"
  status' :: "TransactionStatus option"
  type' :: "TransactionType option"
  start_date :: "int option"
  end_date :: "int option"
  page :: "int option"
  limit :: "int option"

text \<open>The \<^verbatim>\<open>where\<close> object built in lines 143 to 162, and the rows it selects.\<close>

record where_options =
  where_isDeleted :: bool
  where_walletId :: "int option"
  where_status :: "TransactionStatus option"
  where_type :: "TransactionType option"
  where_gte :: "int option"
  where_lte :: "int option"

definition build_where :: "filters \<Rightarrow> where_options" where
  "build_where f =
     \<lparr>where_isDeleted = False,
      where_walletId = (case walletId' f of
                          None \<Rightarrow> None
                        | Some w \<Rightarrow> if w \<noteq> 0 then Some w else None),
      where_status = status' f,
      where_type = type' f,
      where_gte = (if start_date f \<noteq> None \<or> end_date f \<noteq> None then start_date f else None),
      where_lte = (if start_date f \<noteq> None \<or> end_date f \<noteq> None then end_date f else None)\<rparr>"

definition matches :: "where_options \<Rightarrow> TransactionAttributes \<Rightarrow> bool" where
  "matches w x \<longleftrightarrow>
     isDeleted x = where_isDeleted w
     \<and> (case where_walletId w of None \<Rightarrow> True | Some i \<Rightarrow> walletId x = i)
     \<and> (case where_status w of None \<Rightarrow> True | Some s \<Rightarrow> status x = s)
     \<and> (case where_type w of None \<Rightarrow> True | Some ty \<Rightarrow> type x = ty)
     \<and> (case where_gte w of None \<Rightarrow> True | Some a \<Rightarrow> a \<le> createdAt x)
     \<and> (case where_lte w of None \<Rightarrow> True | Some b \<Rightarrow> createdAt x \<le> b)"

text \<open>\<^verbatim>\<open>order: [["createdAt", "DESC"]]\<close>, then the optional \<^verbatim>\<open>offset\<close> and \<^verbatim>\<open>limit\<close>. Rows
  with equal creation times keep their table order. The joined wallet and user columns add
  no row and remove none, and are left out.\<close>

definition order_desc :: "TransactionAttributes list \<Rightarrow> TransactionAttributes list" where
  "order_desc xs = sort_key (\<lambda>x. - createdAt x) xs"

record query_options =
  query_where :: where_options
  query_offset :: "int option"
  query_limit :: "int option"

record query_env =
  count_fault :: "ErrorType option"
  findAll_fault :: "ErrorType option"

definition count_rows :: "query_env \<Rightarrow> where_options \<Rightarrow> database \<Rightarrow> ErrorType + nat" where
  "count_rows q w db =
     (case count_fault q of
        Some err \<Rightarrow> Inl err
      | None \<Rightarrow> Inr (length (filter (matches w) (transactions db))))"

definition findAll ::
  "query_env \<Rightarrow> query_options \<Rightarrow> database \<Rightarrow> ErrorType + TransactionAttributes list" where
  "findAll q opts db =
     (case findAll_fault q of
        Some err \<Rightarrow> Inl err
      | None \<Rightarrow>
          (let ordered = order_desc (filter (matches (query_where opts)) (transactions db));
               skipped = (case query_offset opts of
                            None \<Rightarrow> ordered
                          | Some off \<Rightarrow> drop (nat off) ordered)
           in Inr (case query_limit opts of
                     None \<Rightarrow> skipped
                   | Some n \<Rightarrow> take (nat n) skipped)))"

text \<open>Lines 187 to 195: the offset and the limit, when the window is applied.\<close>

definition pagination :: "filters \<Rightarrow> (int \<times> int) option" where
  "pagination f =
     (case (page f, limit f) of
        (Some p, Some l) \<Rightarrow>
          if p \<noteq> 0 \<and> l \<noteq> 0 \<and> p > 0 \<and> l > 0 then Some ((p - 1) * l, l) else None
      | _ \<Rightarrow> None)"

definition getListTransactionRepo ::
  "query_env \<Rightarrow> filters \<Rightarrow> database \<Rightarrow> ErrorType + (TransactionAttributes list \<times> nat)" where
  "getListTransactionRepo q f db =
     (let w = build_where f;
          rethrown = (\<lambda>error. \<lparr>name = name error, message = message error, code = code error\<rparr>)
      in case count_rows q w db of
           Inl err \<Rightarrow> Inl (rethrown err)
         | Inr total' \<Rightarrow>
             (let queryOptions =
                    (case pagination f of
                       Some (off, l) \<Rightarrow>
                         \<lparr>query_where = w, query_offset = Some off, query_limit = Some l\<rparr>
                     | None \<Rightarrow> \<lparr>query_where = w, query_offset = None, query_limit = None\<rparr>)
              in case findAll q queryOptions db of
                   Inl err \<Rightarrow> Inl (rethrown err)
                 | Inr rows \<Rightarrow> Inr (rows, total')))"

section \<open>Example inputs\<close>

text \<open>A storage layer that throws nothing, a wallet holding 70, and a payment request.\<close>

definition ex_env :: env where
  "ex_env = \<lparr>new_id = 1, now = 1000, findByPk_fault = None, findOne_fault = None,
     begin_fault = None, create_fault = None, save_fault = None, commit_fault = None,
     rollback_fault = None\<rparr>"

definition ex_db :: database where
  "ex_db = \<lparr>wallets = [\<lparr>wallet_id = 1, balance = Num 70\<rparr>], transactions = []\<rparr>"

definition ex_uow :: uow where
  "ex_uow = \<lparr>view = ex_db, state = Active\<rparr>"

definition ex_pay :: "real \<Rightarrow> data" where
  "ex_pay a = \<lparr>walletId = 1, amount = Num a, status = COMPLETED, type = PAY_SERVICE,
     referenceId = None\<rparr>"

section \<open>Predicates of the claims\<close>



text \<open>A sequence of calls, each opening its own unit of work on the tables the previous
  one left committed.\<close>

fun run :: "(env \<times> data) list \<Rightarrow> database \<Rightarrow> database" where
  "run [] db = db"
| "run ((e, d) # cs) db = run cs (committed (createTransactionRepo e d None db))"

text \<open>The storage layer throws nothing during the call.\<close>

definition no_faults :: "env \<Rightarrow> bool" where
  "no_faults e \<longleftrightarrow>
     findByPk_fault e = None \<and> findOne_fault e = None \<and> begin_fault e = None
     \<and> create_fault e = None \<and> save_fault e = None \<and> commit_fault e = None
     \<and> rollback_fault e = None"

text \<open>The duplicate check of lines 33 to 49 finds a row.\<close>

definition duplicate :: "data \<Rightarrow> database \<Rightarrow> bool" where
  "duplicate d db \<longleftrightarrow>
     truthy (referenceId d)
     \<and> find (\<lambda>x. referenceId x = referenceId d \<and> type x = type d \<and> \<not> isDeleted x)
          (transactions db) \<noteq> None"

text \<open>Among the rows that are not deleted and carry a truthy reference, no two share the
  pair of reference and type.\<close>

definition unique_refs :: "TransactionAttributes list \<Rightarrow> bool" where
  "unique_refs rows \<longleftrightarrow>
     distinct (map (\<lambda>x. (referenceId x, type x))
                 (filter (\<lambda>x. \<not> isDeleted x \<and> truthy (referenceId x)) rows))"

text \<open>A deposit of 10 under a given reference, and tables that already hold its row.\<close>

definition ex_deposit :: "string option \<Rightarrow> data" where
  "ex_deposit r = \<lparr>walletId = 1, amount = Num 10, status = COMPLETED, type = DEPOSIT,
     referenceId = r\<rparr>"

definition ex_db_with :: "string option \<Rightarrow> database" where
  "ex_db_with r = ex_db\<lparr>transactions := [new_row ex_env (ex_deposit r)]\<rparr>"

text \<open>A request of a type outside the three the function handles.\<close>

definition ex_other :: data where
  "ex_other = \<lparr>walletId = 1, amount = Num 10, status = COMPLETED, type = OTHER ''BONUS'',
     referenceId = None\<rparr>"

text \<open>The values the storage layer throws during the call, and the six errors the function
  constructs itself.\<close>

definition faults :: "env \<Rightarrow> ErrorType list" where
  "faults e =
     concat (map (\<lambda>f. case f of None \<Rightarrow> [] | Some err \<Rightarrow> [err])
       [findByPk_fault e, findOne_fault e, begin_fault e, create_fault e, save_fault e,
        commit_fault e, rollback_fault e])"

definition typed_errors :: "data \<Rightarrow> ErrorType list" where
  "typed_errors d =
     [new_ErrorType ''NotFoundError'' ''Wallet not found'',
      new_ErrorType ''DuplicateTransactionError''
        (''Transaction already exists for reference '' @ or_default (referenceId d) []),
      new_ErrorType ''InvalidDataError'' ''Balance or amount is invalid'',
      new_ErrorType ''InvalidAmountError'' ''Amount cannot be negative'',
      new_ErrorType ''InsufficientFundsError'' ''Insufficient wallet balance'',
      new_ErrorType ''InvalidTypeError'' ''Transaction type must be PAY_SERVICE or DEPOSIT'']"

text \<open>Two values the storage layer may throw: a connection error carrying its own name,
  and a value without a name.\<close>

definition ex_named_fault :: ErrorType where
  "ex_named_fault = \<lparr>name = Some ''SequelizeConnectionError'',
     message = Some ''connect ECONNREFUSED'', code = Some ''ECONNREFUSED''\<rparr>"

definition ex_unnamed_fault :: ErrorType where
  "ex_unnamed_fault = \<lparr>name = None, message = Some ''lock wait timeout'', code = Some ''1205''\<rparr>"

text \<open>Three rows of two wallets, created at the times 10, 20 and 30, a filter that supplies
  nothing, and a storage layer that throws nothing.\<close>

definition ex_row :: "int \<Rightarrow> int \<Rightarrow> int \<Rightarrow> TransactionAttributes" where
  "ex_row i w c = \<lparr>walletId = w, amount = Num 5, status = COMPLETED, type = DEPOSIT,
     referenceId = None, row_id = i, isDeleted = False, createdAt = c\<rparr>"

definition ex_rows :: database where
  "ex_rows = \<lparr>wallets = [], transactions = [ex_row 1 1 10, ex_row 2 2 20, ex_row 3 1 30]\<rparr>"

definition ex_filters :: filters where
  "ex_filters = \<lparr>walletId' = None, status' = None, type' = None, start_date = None,
     end_date = None, page = None, limit = None\<rparr>"

definition ex_query_env :: query_env where
  "ex_query_env = \<lparr>count_fault = None, findAll_fault = None\<rparr>"

text \<open>A payment of 30 under the reference \<open>ref1\<close>, the wallet instance the lookup returns for
  it, and the storage layer as it answers a second call.\<close>

definition ex_ref_pay :: data where
  "ex_ref_pay = (ex_pay 30)\<lparr>referenceId := Some ''ref1''\<rparr>"

definition ex_wallet :: Wallet where
  "ex_wallet = \<lparr>wallet_id = 1, balance = Num 70\<rparr>"

definition ex_env2 :: env where
  "ex_env2 = ex_env\<lparr>new_id := 2, now := 1001\<rparr>"

text \<open>A wallet holding \<open>2 ^ 53\<close>, and a deposit of 1.\<close>

definition ex_db_big :: database where
  "ex_db_big = \<lparr>wallets = [\<lparr>wallet_id = 1, balance = Num 9007199254740992\<rparr>],
     transactions = []\<rparr>"

definition ex_deposit_one :: data where
  "ex_deposit_one = (ex_deposit None)\<lparr>amount := Num 1\<rparr>"

text \<open>A deposit of -5 to a wallet that does not exist.\<close>

definition ex_missing :: data where
  "ex_missing = (ex_deposit None)\<lparr>walletId := 99, amount := Num (- 5)\<rparr>"

section \<open>Properties of the rounding and of the two halves\<close>

lemmas engine_defs = createTransactionRepo_def validate_def perform_def try_body_def
  update_balance_def rollback_own_def findByPk_def findOne_def begin_uow_def create_def save_def
  new_row_def set_balance_def reads_def rethrow_def new_ErrorType_def or_default_def truthy_def

lemmas query_defs = getListTransactionRepo_def count_rows_def findAll_def pagination_def
  build_where_def matches_def order_desc_def

lemmas ex_defs = ex_env_def ex_db_def ex_uow_def ex_pay_def ex_deposit_def ex_db_with_def ex_other_def
  ex_named_fault_def ex_unnamed_fault_def ex_row_def ex_rows_def ex_filters_def
  ex_query_env_def ex_ref_pay_def ex_wallet_def ex_env2_def ex_db_big_def ex_deposit_one_def
  ex_missing_def

text \<open>The exponent is the integer part of the binary logarithm. Rounding to binary64 keeps
  the sign and leaves a binary64 value as it is; a whole number below \<open>2 ^ 53\<close> is one.\<close>

lemma two_powr: "(2::real) powr real_of_int n = 2 powi n"
  by (simp add: powr_real_of_int')

lemma exponent_bounds:
  assumes "x \<noteq> 0"
  shows "2 powi (exponent x) \<le> \<bar>x\<bar>" and "\<bar>x\<bar> < 2 powi (exponent x + 1)"
proof -
  have "2 powi (exponent x) \<le> \<bar>x\<bar> \<and> \<bar>x\<bar> < 2 powi (exponent x + 1)"
  proof (cases "1 \<le> \<bar>x\<bar>")
    case True
    define n where "n = \<lfloor>\<bar>x\<bar>\<rfloor>"
    from True have n: "0 < n" by (simp add: n_def)
    then have b1: "1 \<le> bitlen n" by (simp add: bitlen_alt_def)
    from bitlen_bounds[OF n] have lo: "2 ^ nat (bitlen n - 1) \<le> n" and hi: "n < 2 ^ nat (bitlen n)"
      by simp_all
    have e: "exponent x = bitlen n - 1" using True by (simp add: exponent_def n_def)
    have "(2::real) powi (bitlen n - 1) = of_int (2 ^ nat (bitlen n - 1))"
      using b1 by (simp add: power_int_def)
    also have "\<dots> \<le> of_int n" using lo by (simp only: of_int_le_iff)
    also have "\<dots> \<le> \<bar>x\<bar>" by (simp add: n_def)
    finally have 1: "2 powi (exponent x) \<le> \<bar>x\<bar>" by (simp add: e)
    from hi have "n + 1 \<le> 2 ^ nat (bitlen n)" by simp
    then have "(of_int (n + 1) :: real) \<le> of_int (2 ^ nat (bitlen n))" by (simp only: of_int_le_iff)
    moreover have "\<bar>x\<bar> < of_int (n + 1)" unfolding n_def by linarith
    ultimately have "\<bar>x\<bar> < of_int (2 ^ nat (bitlen n))" by linarith
    also have "\<dots> = 2 powi (bitlen n)" using b1 by (simp add: power_int_def)
    finally have 2: "\<bar>x\<bar> < 2 powi (exponent x + 1)" by (simp add: e)
    from 1 2 show ?thesis ..
  next
    case False
    with assms have x: "0 < \<bar>x\<bar>" "\<bar>x\<bar> < 1" by simp_all
    define y where "y = 1 / \<bar>x\<bar>"
    from x have y: "1 < y" by (simp add: y_def)
    define m where "m = \<lceil>y\<rceil> - 1"
    from y have m: "0 < m" unfolding m_def by linarith
    have my: "of_int m < y" "y \<le> of_int m + 1" unfolding m_def by linarith+
    from m have b1: "1 \<le> bitlen m" by (simp add: bitlen_alt_def)
    from bitlen_bounds[OF m] have lo: "2 ^ nat (bitlen m - 1) \<le> m" and hi: "m < 2 ^ nat (bitlen m)"
      by simp_all
    have e: "exponent x = - bitlen m" using False by (simp add: exponent_def m_def y_def)
    from hi have "m + 1 \<le> 2 ^ nat (bitlen m)" by simp
    then have "(of_int (m + 1) :: real) \<le> of_int (2 ^ nat (bitlen m))" by (simp only: of_int_le_iff)
    with my(2) have "y \<le> of_int (2 ^ nat (bitlen m))" by simp
    also have "\<dots> = 2 powi (bitlen m)" using b1 by (simp add: power_int_def)
    finally have yhi: "y \<le> 2 powi (bitlen m)" .
    have "(2::real) powi (bitlen m - 1) = of_int (2 ^ nat (bitlen m - 1))"
      using b1 by (simp add: power_int_def)
    also have "\<dots> \<le> of_int m" using lo by (simp only: of_int_le_iff)
    also have "\<dots> < y" by (rule my(1))
    finally have ylo: "2 powi (bitlen m - 1) < y" .
    have xy: "\<bar>x\<bar> = 1 / y" using x by (simp add: y_def)
    have p: "(0::real) < 2 powi k" for k by simp
    from yhi y have "1 / 2 powi (bitlen m) \<le> 1 / y"
      by (intro divide_left_mono) (simp_all add: p)
    then have 1: "2 powi (exponent x) \<le> \<bar>x\<bar>"
      by (simp add: e xy power_int_minus field_simps)
    from ylo y have "1 / y < 1 / 2 powi (bitlen m - 1)"
      by (intro divide_strict_left_mono) (simp_all add: p)
    also have "1 / 2 powi (bitlen m - 1) = (2::real) powi (- bitlen m + 1)"
      by (simp add: power_int_minus_left power_int_diff power_int_add field_simps)
    finally have 2: "\<bar>x\<bar> < 2 powi (exponent x + 1)" by (simp add: e xy)
    from 1 2 show ?thesis ..
  qed
  then show "2 powi (exponent x) \<le> \<bar>x\<bar>" and "\<bar>x\<bar> < 2 powi (exponent x + 1)" by blast+
qed

lemma exponent_log: "x \<noteq> 0 \<Longrightarrow> exponent x = \<lfloor>log 2 \<bar>x\<bar>\<rfloor>"
proof -
  assume x: "x \<noteq> 0"
  have "2 powr (real_of_int (exponent x) + 1) = (2::real) powi (exponent x + 1)"
    using two_powr[of "exponent x + 1"] by simp
  with exponent_bounds[OF x]
  have "2 powr real_of_int (exponent x) \<le> \<bar>x\<bar> \<and> \<bar>x\<bar> < 2 powr (real_of_int (exponent x) + 1)"
    by (simp add: two_powr)
  with x have "\<lfloor>log 2 \<bar>x\<bar>\<rfloor> = exponent x"
    by (subst floor_log_eq_powr_iff) simp_all
  then show ?thesis by simp
qed

lemma rne_of_int: "rne (of_int k) = k"
  by (simp add: rne_def)




lemma quantum_eq:
  assumes "2 powi e \<le> \<bar>x\<bar>" and "\<bar>x\<bar> < 2 powi (e + 1)"
  shows "quantum x = 2 powi (max (e - 52) (- 1074))"
proof -
  from assms(1) have pos: "0 < \<bar>x\<bar>"
    by (smt (verit) zero_less_power_int)
  have "2 powr (real_of_int e + 1) = (2::real) powi (e + 1)"
    using two_powr[of "e + 1"] by simp
  with assms have "2 powr real_of_int e \<le> \<bar>x\<bar> \<and> \<bar>x\<bar> < 2 powr (real_of_int e + 1)"
    by (simp add: two_powr)
  with pos have "\<lfloor>log 2 \<bar>x\<bar>\<rfloor> = e"
    by (subst floor_log_eq_powr_iff) simp_all
  moreover from pos have "exponent x = \<lfloor>log 2 \<bar>x\<bar>\<rfloor>" by (intro exponent_log) auto
  ultimately show ?thesis by (simp add: quantum_def)
qed

lemma round64_exact:
  assumes x: "x = of_int m * 2 powi k" and m: "\<bar>m\<bar> < 2 ^ 53" and k: "- 1074 \<le> k"
  shows "round64 x = x"
proof (cases "x = 0")
  case True
  then show ?thesis by (simp add: round64_def)
next
  case False
  then have pos: "0 < \<bar>x\<bar>" by simp
  define e where "e = exponent x"
  from False have el: "e = \<lfloor>log 2 \<bar>x\<bar>\<rfloor>" unfolding e_def by (rule exponent_log)
  define j where "j = max (e - 52) (- 1074)"
  have "\<bar>x\<bar> = of_int \<bar>m\<bar> * 2 powi k" by (simp add: x abs_mult)
  also have "\<dots> < 2 ^ 53 * 2 powi k"
    using m by (intro mult_strict_right_mono) (simp_all flip: of_int_less_iff[where 'a=real])
  also have "\<dots> = 2 powi (53 + k)" by (simp add: power_int_add)
  finally have "\<bar>x\<bar> < 2 powr (real_of_int (53 + k))" by (simp only: two_powr)
  then have "log 2 \<bar>x\<bar> < real_of_int (53 + k)"
    using pos by (simp add: log_less_iff)
  then have "e < 53 + k" unfolding el by (simp add: floor_less_iff)
  with k have jk: "j \<le> k" by (simp add: j_def)
  have q: "quantum x = 2 powi j" by (simp add: quantum_def e_def j_def)
  have "x / quantum x = x / 2 powi j" by (simp only: q)
  also have "\<dots> = of_int m * 2 powi (k - j)"
    by (simp add: x power_int_diff)
  also have "\<dots> = of_int (m * 2 ^ nat (k - j))"
    using jk by (simp add: power_int_def)
  finally have "rne (x / quantum x) = m * 2 ^ nat (k - j)" by (simp only: rne_of_int)
  with False have "round64 x = of_int (m * 2 ^ nat (k - j)) * 2 powi j"
    by (simp only: round64_def q if_False)
  then have "round64 x = of_int m * 2 ^ nat (k - j) * 2 powi j" by simp
  also have "\<dots> = of_int m * (2 powi (k - j) * 2 powi j)"
    using jk by (simp add: power_int_def)
  also have "2 powi (k - j) * 2 powi j = (2::real) powi k"
    by (simp flip: power_int_add)
  finally show ?thesis by (simp add: x)
qed

lemma round64_of_int: "\<bar>n\<bar> < 2 ^ 53 \<Longrightarrow> round64 (of_int n) = of_int n"
  using round64_exact[of "of_int n" n 0] by simp

lemma round64_numeral:
  "numeral k < (9007199254740992::int) \<Longrightarrow> round64 (numeral k) = numeral k"
  using round64_of_int[of "numeral k"] by simp

lemma round64_tie: "round64 9007199254740993 = 9007199254740992"
proof -
  have "quantum 9007199254740993 = 2 powi (max (53 - 52) (- 1074))"
    by (rule quantum_eq) simp_all
  then have q: "quantum 9007199254740993 = 2" by simp
  have f: "\<lfloor>9007199254740993 / (2::real)\<rfloor> = 4503599627370496" by simp
  show ?thesis by (simp add: round64_def q rne_def f)
qed

text \<open>The binary64 values nearest to 0.1 and 0.2 add up to the one nearest to
  0.30000000000000004.\<close>

lemma round64_tenth_plus_fifth:
  "round64 (3602879701896397 / 2 ^ 55 + 3602879701896397 / 2 ^ 54) = 5404319552844596 / 2 ^ 54"
proof -
  let ?x = "(3602879701896397 / 2 ^ 55 + 3602879701896397 / 2 ^ 54) :: real"
  have x: "?x = 10808639105689191 / 2 ^ 55" by simp
  have "quantum (10808639105689191 / 2 ^ 55) = 2 powi (max (- 2 - 52) (- 1074))"
    by (rule quantum_eq) (simp_all add: power_int_minus field_simps)
  then have q: "quantum (10808639105689191 / 2 ^ 55) = 1 / 2 ^ 54"
    by (simp add: power_int_minus field_simps)
  have d: "(10808639105689191 / 2 ^ 55) / (1 / 2 ^ 54) = (10808639105689191 / 2 :: real)" by simp
  have f: "\<lfloor>10808639105689191 / (2::real)\<rfloor> = 5404319552844595" by simp
  have "rne (10808639105689191 / 2) = 5404319552844596"
    unfolding rne_def Let_def f by simp
  then show ?thesis unfolding x round64_def q d by simp
qed

lemma max_double_ge: "9007199254740992 \<le> max_double"
proof -
  have "(9007199254740992::real) = 2 ^ 53" by simp
  also have "\<dots> \<le> (2 ^ 53 - 1) * 2 ^ 1" by simp
  also have "\<dots> \<le> (2 ^ 53 - 1) * 2 ^ 971"
    by (intro mult_left_mono power_increasing) simp_all
  finally show ?thesis by (simp only: max_double_def)
qed

lemma binary64_numeral:
  assumes "numeral k < (9007199254740992::int)"
  shows "binary64 (numeral k)"
proof -
  from assms have "(of_int (numeral k) :: real) < of_int 9007199254740992"
    by (simp only: of_int_less_iff)
  then have "(numeral k :: real) < 9007199254740992" by simp
  with max_double_ge have "(numeral k :: real) \<le> max_double" by linarith
  moreover have "\<bar>numeral k :: real\<bar> = numeral k" by simp
  ultimately have "\<bar>numeral k :: real\<bar> \<le> max_double" by (simp only:)
  with round64_numeral[OF assms] show ?thesis unfolding binary64_def by blast
qed

lemma find_wallet_id: "find (\<lambda>w. wallet_id w = i) ws = Some w \<Longrightarrow> wallet_id w = i \<and> w \<in> set ws"
  by (induction ws) (auto split: if_splits)

lemma validate_Inr:
  assumes "validate e d t db = Inr (w, bal, amt)"
  shows "findByPk_fault e = None"
    and "find (\<lambda>w. wallet_id w = walletId d) (wallets (reads t db)) = Some w"
    and "bal = balance w" and "amt = amount d"
    and "\<not> isNaN bal" and "\<not> isNaN amt" and "\<not> lt amt (Num 0)"
    and "truthy (referenceId d) \<Longrightarrow> findOne_fault e = None"
    and "truthy (referenceId d) \<Longrightarrow>
           find (\<lambda>x. referenceId x = referenceId d \<and> type x = type d \<and> \<not> isDeleted x)
             (transactions (reads t db)) = None"
  using assms
  by (auto simp: validate_def findByPk_def findOne_def split: option.splits sum.splits if_splits)

lemma try_body_Inr:
  assumes "try_body e d w bal amt u = (Inr row, u')"
  shows "\<exists>w'. update_balance d w bal amt = Inr w' \<and> row = new_row e d
          \<and> create_fault e = None \<and> save_fault e = None
          \<and> u' = u\<lparr>view := \<lparr>wallets = set_balance (wallet_id w') (balance w') (wallets (view u)),
                              transactions = transactions (view u) @ [new_row e d]\<rparr>\<rparr>"
  using assms
  by (auto simp: try_body_def create_def save_def split: option.splits sum.splits prod.splits)

lemma try_body_Inl:
  assumes "try_body e d w bal amt u = (Inl err, u')"
  shows "u' = u \<or> u' = u\<lparr>view := (view u)\<lparr>transactions := transactions (view u) @ [new_row e d]\<rparr>\<rparr>"
  using assms
  by (auto simp: try_body_def create_def save_def split: option.splits sum.splits prod.splits)

lemma update_balance_id: "update_balance d w bal amt = Inr w' \<Longrightarrow> wallet_id w' = wallet_id w"
  by (auto simp: update_balance_def split: if_splits)

text \<open>The outcome of a call, by the step at which it ends.\<close>

lemma repo_validate_Inl:
  assumes "validate e d t db = Inl err"
  shows "createTransactionRepo e d t db =
           \<lparr>result = Inl (rethrow err), committed = db, caller_uow = t, own_uow = None,
            lifecycle = []\<rparr>"
  using assms by (simp add: createTransactionRepo_def)

lemma repo_caller:
  assumes "validate e d (Some u) db = Inr (w, bal, amt)"
    and "try_body e d w bal amt u = (r, u')"
  shows "createTransactionRepo e d (Some u) db =
           \<lparr>result = (case r of Inl err \<Rightarrow> Inl (rethrow err) | Inr row \<Rightarrow> Inr row),
            committed = db, caller_uow = Some u', own_uow = None, lifecycle = []\<rparr>"
  using assms by (simp add: createTransactionRepo_def perform_def)

lemma repo_begin_fault:
  assumes "validate e d None db = Inr (w, bal, amt)" and "begin_fault e = Some err"
  shows "createTransactionRepo e d None db =
           \<lparr>result = Inl (rethrow err), committed = db, caller_uow = None, own_uow = None,
            lifecycle = [Begin]\<rparr>"
  using assms by (simp add: createTransactionRepo_def perform_def begin_uow_def)

lemma repo_own_Inl:
  assumes "validate e d None db = Inr (w, bal, amt)" and "begin_fault e = None"
    and "try_body e d w bal amt \<lparr>view = db, state = Active\<rparr> = (Inl err, u')"
  shows "createTransactionRepo e d None db =
           (case rollback_fault e of
              None \<Rightarrow> \<lparr>result = Inl (rethrow err), committed = db, caller_uow = None,
                        own_uow = Some \<lparr>view = db, state = RolledBack\<rparr>,
                        lifecycle = [Begin, Rollback]\<rparr>
            | Some err' \<Rightarrow> \<lparr>result = Inl (rethrow err'), committed = db, caller_uow = None,
                        own_uow = Some u', lifecycle = [Begin, Rollback]\<rparr>)"
  using assms
  by (simp add: createTransactionRepo_def perform_def begin_uow_def rollback_own_def
      split: option.splits)

lemma repo_own_Inr:
  assumes "validate e d None db = Inr (w, bal, amt)" and "begin_fault e = None"
    and "try_body e d w bal amt \<lparr>view = db, state = Active\<rparr> = (Inr row, u')"
  shows "createTransactionRepo e d None db =
           (case commit_fault e of
              None \<Rightarrow> \<lparr>result = Inr row, committed = view u', caller_uow = None,
                        own_uow = Some (u'\<lparr>state := Committed\<rparr>), lifecycle = [Begin, Commit]\<rparr>
            | Some err \<Rightarrow>
               (case rollback_fault e of
                  None \<Rightarrow> \<lparr>result = Inl (rethrow err), committed = db, caller_uow = None,
                            own_uow = Some \<lparr>view = db, state = RolledBack\<rparr>,
                            lifecycle = [Begin, Commit, Rollback]\<rparr>
                | Some err' \<Rightarrow> \<lparr>result = Inl (rethrow err'), committed = db, caller_uow = None,
                            own_uow = Some u', lifecycle = [Begin, Commit, Rollback]\<rparr>))"
  using assms
  by (simp add: createTransactionRepo_def perform_def begin_uow_def rollback_own_def
      split: option.splits)

text \<open>Every call is one of five kinds.\<close>

lemma repo_cases [case_names validate_Inl caller begin_fault own_Inl own_Inr]:
  assumes "\<And>err. validate e d t db = Inl err \<Longrightarrow> P"
    and "\<And>u w r u'. t = Some u \<Longrightarrow> validate e d t db = Inr (w, balance w, amount d)
           \<Longrightarrow> try_body e d w (balance w) (amount d) u = (r, u') \<Longrightarrow> P"
    and "\<And>w err. t = None \<Longrightarrow> validate e d t db = Inr (w, balance w, amount d)
           \<Longrightarrow> begin_fault e = Some err \<Longrightarrow> P"
    and "\<And>w err u'. t = None \<Longrightarrow> validate e d t db = Inr (w, balance w, amount d)
           \<Longrightarrow> begin_fault e = None
           \<Longrightarrow> try_body e d w (balance w) (amount d) \<lparr>view = db, state = Active\<rparr> = (Inl err, u')
           \<Longrightarrow> P"
    and "\<And>w row u'. t = None \<Longrightarrow> validate e d t db = Inr (w, balance w, amount d)
           \<Longrightarrow> begin_fault e = None
           \<Longrightarrow> try_body e d w (balance w) (amount d) \<lparr>view = db, state = Active\<rparr> = (Inr row, u')
           \<Longrightarrow> P"
  shows P
proof (cases "validate e d t db")
  case (Inl err)
  then show ?thesis by (rule assms(1))
next
  case (Inr v)
  obtain w bal amt where v: "v = (w, bal, amt)" by (cases v)
  from validate_Inr(3,4)[OF Inr[unfolded v]] Inr v
  have val: "validate e d t db = Inr (w, balance w, amount d)" by simp
  show ?thesis
  proof (cases t)
    case (Some u)
    obtain r u' where "try_body e d w (balance w) (amount d) u = (r, u')"
      by (cases "try_body e d w (balance w) (amount d) u")
    with Some val show ?thesis by (rule assms(2))
  next
    case None
    show ?thesis
    proof (cases "begin_fault e")
      case (Some err)
      with None val show ?thesis by (rule assms(3))
    next
      case bf: None
      obtain r u' where tb: "try_body e d w (balance w) (amount d) \<lparr>view = db, state = Active\<rparr> = (r, u')"
        by (cases "try_body e d w (balance w) (amount d) \<lparr>view = db, state = Active\<rparr>")
      show ?thesis
      proof (cases r)
        case (Inl err)
        with None val bf tb show ?thesis by (auto intro: assms(4))
      next
        case (Inr row)
        with None val bf tb show ?thesis by (auto intro: assms(5))
      qed
    qed
  qed
qed

text \<open>A failed call changes neither the committed tables nor a wallet.\<close>

lemma repo_Inl:
  assumes "result (createTransactionRepo e d t db) = Inl err"
  shows "committed (createTransactionRepo e d t db) = db"
    and "\<And>u'. caller_uow (createTransactionRepo e d t db) = Some u'
           \<Longrightarrow> wallets (view u') = wallets (reads t db)"
proof -
  have "committed (createTransactionRepo e d t db) = db
      \<and> (\<forall>u'. caller_uow (createTransactionRepo e d t db) = Some u'
           \<longrightarrow> wallets (view u') = wallets (reads t db))"
  proof (cases rule: repo_cases[of e d t db])
    case (validate_Inl err)
    then show ?thesis by (auto simp: repo_validate_Inl reads_def)
  next
    case (caller u w r u')
    with assms obtain err' where "r = Inl err'" by (cases r) (auto simp: repo_caller)
    with try_body_Inl[of e d w "balance w" "amount d" u err' u'] caller show ?thesis
      by (auto simp: repo_caller reads_def)
  next
    case (begin_fault w err)
    then show ?thesis by (simp add: repo_begin_fault)
  next
    case (own_Inl w err u')
    then show ?thesis by (simp add: repo_own_Inl split: option.splits)
  next
    case (own_Inr w row u')
    with assms show ?thesis by (auto simp: repo_own_Inr split: option.splits)
  qed
  then show "committed (createTransactionRepo e d t db) = db"
    and "\<And>u'. caller_uow (createTransactionRepo e d t db) = Some u'
           \<Longrightarrow> wallets (view u') = wallets (reads t db)"
    by blast+
qed

text \<open>A successful call: the tables it wrote to hold one more row and one new balance.\<close>

lemma repo_Inr:
  assumes "result (createTransactionRepo e d t db) = Inr row"
  shows "\<exists>w w'. validate e d t db = Inr (w, balance w, amount d)
           \<and> update_balance d w (balance w) (amount d) = Inr w'
           \<and> row = new_row e d
           \<and> reads (caller_uow (createTransactionRepo e d t db))
                    (committed (createTransactionRepo e d t db))
               = \<lparr>wallets = set_balance (walletId d) (balance w') (wallets (reads t db)),
                  transactions = transactions (reads t db) @ [row]\<rparr>"
proof (cases rule: repo_cases[of e d t db])
  case (validate_Inl err)
  with assms show ?thesis by (simp add: repo_validate_Inl)
next
  case (caller u w r u')
  with assms have r: "r = Inr row" by (cases r) (auto simp: repo_caller)
  from try_body_Inr[of e d w "balance w" "amount d" u row u'] caller(3) r obtain w' where
    w': "update_balance d w (balance w) (amount d) = Inr w'" "row = new_row e d"
    "u' = u\<lparr>view := \<lparr>wallets = set_balance (wallet_id w') (balance w') (wallets (view u)),
                       transactions = transactions (view u) @ [new_row e d]\<rparr>\<rparr>"
    by auto
  from update_balance_id[OF w'(1)] find_wallet_id[OF validate_Inr(2)[OF caller(2)]]
  have "wallet_id w' = walletId d" by simp
  with w' caller show ?thesis by (auto simp: repo_caller reads_def)
next
  case (begin_fault w err)
  with assms show ?thesis by (simp add: repo_begin_fault)
next
  case (own_Inl w err u')
  with assms show ?thesis by (simp add: repo_own_Inl split: option.splits)
next
  case (own_Inr w row' u')
  with assms have r: "row' = row" and cf: "commit_fault e = None"
    by (auto simp: repo_own_Inr split: option.splits)
  let ?u = "\<lparr>view = db, state = Active\<rparr>"
  from try_body_Inr[of e d w "balance w" "amount d" ?u row u'] own_Inr(4) r obtain w' where
    w': "update_balance d w (balance w) (amount d) = Inr w'" "row = new_row e d"
    "u' = ?u\<lparr>view := \<lparr>wallets = set_balance (wallet_id w') (balance w') (wallets (view ?u)),
                       transactions = transactions (view ?u) @ [new_row e d]\<rparr>\<rparr>"
    by auto
  from update_balance_id[OF w'(1)] find_wallet_id[OF validate_Inr(2)[OF own_Inr(2)]]
  have "wallet_id w' = walletId d" by simp
  with w' own_Inr cf r show ?thesis by (auto simp: repo_own_Inr reads_def)
qed

text \<open>When the storage layer throws nothing and the checks pass, the call ends in the branch
  on the type.\<close>

lemma repo_no_faults_Inr:
  assumes "no_faults e" and "\<not> duplicate d (reads t db)"
    and "find (\<lambda>w. wallet_id w = walletId d) (wallets (reads t db)) = Some w"
    and "\<not> isNaN (balance w)" and "\<not> isNaN (amount d)" and "\<not> lt (amount d) (Num 0)"
  shows "validate e d t db = Inr (w, balance w, amount d)"
    and "result (createTransactionRepo e d t db)
          = (case update_balance d w (balance w) (amount d) of
               Inl err \<Rightarrow> Inl (rethrow err) | Inr w' \<Rightarrow> Inr (new_row e d))"
proof -
  from assms show val: "validate e d t db = Inr (w, balance w, amount d)"
    by (auto simp: validate_def findByPk_def findOne_def no_faults_def duplicate_def
        split: option.splits)
  have tb: "fst (try_body e d w (balance w) (amount d) u)
              = (case update_balance d w (balance w) (amount d) of
                   Inl err \<Rightarrow> Inl err | Inr w' \<Rightarrow> Inr (new_row e d))" for u
    using assms(1)
    by (simp add: try_body_def create_def save_def no_faults_def split: sum.splits)
  show "result (createTransactionRepo e d t db)
          = (case update_balance d w (balance w) (amount d) of
               Inl err \<Rightarrow> Inl (rethrow err) | Inr w' \<Rightarrow> Inr (new_row e d))"
  proof (cases t)
    case None
    obtain r u' where r: "try_body e d w (balance w) (amount d) \<lparr>view = db, state = Active\<rparr> = (r, u')"
      by (cases "try_body e d w (balance w) (amount d) \<lparr>view = db, state = Active\<rparr>")
    with tb[of "\<lparr>view = db, state = Active\<rparr>"] val None assms(1) show ?thesis
      by (cases r; cases "update_balance d w (balance w) (amount d)")
         (auto simp: repo_own_Inl repo_own_Inr no_faults_def)
  next
    case (Some u)
    obtain r u' where r: "try_body e d w (balance w) (amount d) u = (r, u')"
      by (cases "try_body e d w (balance w) (amount d) u")
    with tb[of u] val Some show ?thesis
      by (cases r; cases "update_balance d w (balance w) (amount d)") (auto simp: repo_caller)
  qed
qed

text \<open>Where the error of a failed call comes from: the storage layer, or one of the six
  errors the function constructs.\<close>

lemma in_faults:
  "f \<in> set (faults e) \<longleftrightarrow>
     findByPk_fault e = Some f \<or> findOne_fault e = Some f \<or> begin_fault e = Some f
     \<or> create_fault e = Some f \<or> save_fault e = Some f \<or> commit_fault e = Some f
     \<or> rollback_fault e = Some f"
  by (auto simp: faults_def split: option.splits)

lemma rethrow_typed: "err \<in> set (typed_errors d) \<Longrightarrow> rethrow err = err"
  by (auto simp: typed_errors_def rethrow_def new_ErrorType_def or_default_def)

lemma rethrow_name_eq:
  assumes "name (rethrow f) = Some s" and "s \<noteq> ''TransactionCreationError''"
  shows "name f = Some s"
  using assms by (auto simp: rethrow_def or_default_def split: option.splits if_splits)

lemma validate_Inl_source:
  assumes "validate e d t db = Inl err"
  shows "err \<in> set (faults e)
         \<or> err \<in> set (typed_errors d)
            \<and> name err \<noteq> Some ''InsufficientFundsError'' \<and> name err \<noteq> Some ''InvalidTypeError''
            \<and> (name err = Some ''InvalidAmountError'' \<longrightarrow> lt (amount d) (Num 0))"
  using assms
  by (auto simp: validate_def findByPk_def findOne_def in_faults typed_errors_def
      new_ErrorType_def split: option.splits sum.splits if_splits)

lemma try_body_Inl_source:
  assumes "try_body e d w bal amt u = (Inl err, u')"
  shows "err \<in> set (faults e)
         \<or> err \<in> set (typed_errors d)
            \<and> (name err = Some ''InsufficientFundsError'' \<or> name err = Some ''InvalidTypeError'')"
  using assms
  by (auto simp: try_body_def create_def save_def update_balance_def in_faults typed_errors_def
      new_ErrorType_def split: option.splits sum.splits if_splits)

lemma repo_Inl_source:
  assumes "result (createTransactionRepo e d t db) = Inl err"
  shows "(\<exists>f \<in> set (faults e). err = rethrow f)
         \<or> err \<in> set (typed_errors d)
            \<and> (name err = Some ''InvalidAmountError'' \<longrightarrow> lt (amount d) (Num 0))"
proof (cases rule: repo_cases[of e d t db])
  case (validate_Inl raw)
  with assms have "err = rethrow raw" by (simp add: repo_validate_Inl)
  with validate_Inl_source[OF validate_Inl] show ?thesis by (auto simp: rethrow_typed)
next
  case (caller u w r u')
  with assms obtain raw where "r = Inl raw" "err = rethrow raw"
    by (cases r) (auto simp: repo_caller)
  with try_body_Inl_source[of e d w "balance w" "amount d" u raw u'] caller(3) show ?thesis
    by (auto simp: rethrow_typed)
next
  case (begin_fault w raw)
  with assms show ?thesis by (auto simp: repo_begin_fault in_faults)
next
  case (own_Inl w raw u')
  with assms try_body_Inl_source[OF own_Inl(4)] show ?thesis
    by (cases "rollback_fault e") (auto simp: repo_own_Inl in_faults rethrow_typed)
next
  case (own_Inr w row u')
  with assms show ?thesis
    by (cases "commit_fault e"; cases "rollback_fault e") (auto simp: repo_own_Inr in_faults)
qed

text \<open>The result of a query that does not fail.\<close>

lemma getList_Inr:
  assumes "getListTransactionRepo q f db = Inr (rows, n)"
  shows "n = length (filter (matches (build_where f)) (transactions db))"
    and "rows = (case pagination f of
                   Some (off, l) \<Rightarrow>
                     take (nat l) (drop (nat off)
                       (order_desc (filter (matches (build_where f)) (transactions db))))
                 | None \<Rightarrow> order_desc (filter (matches (build_where f)) (transactions db)))"
  using assms
  by (auto simp: getListTransactionRepo_def count_rows_def findAll_def Let_def
      split: option.splits sum.splits prod.splits)

lemma getList_total:
  assumes "count_fault q = None" and "findAll_fault q = None"
  shows "\<exists>rows. getListTransactionRepo q f db
           = Inr (rows, length (filter (matches (build_where f)) (transactions db)))"
  using assms
  by (simp add: getListTransactionRepo_def count_rows_def findAll_def Let_def)

lemma order_desc_sorted: "sorted_wrt (\<lambda>x y. createdAt y \<le> createdAt x) (order_desc xs)"
proof -
  have "sorted (map (\<lambda>x. - createdAt x) (order_desc xs))"
    unfolding order_desc_def by (rule sorted_sort_key)
  then show ?thesis by (simp add: sorted_map)
qed

lemma order_desc_mset: "mset (order_desc xs) = mset xs"
  by (simp add: order_desc_def)

lemma pagination_Some:
  "pagination f = Some (off, l) \<longleftrightarrow>
     (\<exists>p. page f = Some p \<and> limit f = Some l \<and> 0 < p \<and> 0 < l \<and> off = (p - 1) * l)"
  by (auto simp: pagination_def split: option.splits)

lemma pagination_None:
  "pagination f = None \<longleftrightarrow> \<not> (\<exists>p l. page f = Some p \<and> limit f = Some l \<and> 0 < p \<and> 0 < l)"
  by (auto simp: pagination_def split: option.splits)

section \<open>Atomicity\<close>

text \<open>
  C1 (as amended). \<open>createTransactionRepo\<close> is all-or-nothing on the committed tables. If the
  call fails, the committed tables are unchanged, so no row is persisted and no balance
  changed; in a unit of work supplied by the caller no wallet is changed, and the unit of
  work is either untouched or holds the one row created before the failing step, which
  the call leaves for the caller to roll back. If the call succeeds, the returned row is
  the one created, exactly that row is appended and exactly one balance update, of the
  wallet addressed, is made: in the committed tables when the call opened the unit of work,
  in the caller's unit of work, uncommitted, when the caller supplied it.
\<close>

theorem createTransactionRepo_all_or_nothing:
  "(let out = createTransactionRepo e d t db in
     (\<forall>err. result out = Inl err \<longrightarrow>
        committed out = db
        \<and> (\<forall>u. t = Some u \<longrightarrow>
              caller_uow out = Some u
              \<or> caller_uow out =
                  Some (u\<lparr>view := (view u)\<lparr>transactions :=
                                              transactions (view u) @ [new_row e d]\<rparr>\<rparr>)))
     \<and> (\<forall>row. result out = Inr row \<longrightarrow>
          row = new_row e d
          \<and> (\<exists>b. (t = None \<longrightarrow>
                    committed out =
                      \<lparr>wallets = set_balance (walletId d) b (wallets db),
                       transactions = transactions db @ [row]\<rparr>)
                \<and> (\<forall>u. t = Some u \<longrightarrow>
                      committed out = db
                      \<and> caller_uow out =
                          Some (u\<lparr>view :=
                                    \<lparr>wallets = set_balance (walletId d) b (wallets (view u)),
                                     transactions = transactions (view u) @ [row]\<rparr>\<rparr>)))))"
proof (cases "validate e d t db")
  case (Inl err)
  then show ?thesis by (simp add: createTransactionRepo_def)
next
  case (Inr v)
  obtain w bal amt where v: "v = (w, bal, amt)" by (cases v)
  note val = validate_Inr[OF Inr[unfolded v]]
  have wid: "wallet_id w = walletId d" using find_wallet_id[OF val(2)] by simp
  show ?thesis
  proof (cases t)
    case (Some u)
    obtain r u' where tb: "try_body e d w bal amt u = (r, u')"
      by (cases "try_body e d w bal amt u")
    show ?thesis
    proof (cases r)
      case (Inl err)
      with try_body_Inl[of e d w bal amt u err u'] tb Some Inr v show ?thesis
        by (auto simp: createTransactionRepo_def perform_def)
    next
      case r: (Inr row)
      from try_body_Inr[of e d w bal amt u row u'] tb r obtain w' where
        "update_balance d w bal amt = Inr w'" "row = new_row e d"
        "u' = u\<lparr>view := \<lparr>wallets = set_balance (wallet_id w') (balance w') (wallets (view u)),
                              transactions = transactions (view u) @ [new_row e d]\<rparr>\<rparr>"
        by auto
      with update_balance_id[of d w bal amt w'] wid tb r Some Inr v show ?thesis
        by (auto simp: createTransactionRepo_def perform_def intro!: exI[of _ "balance w'"])
    qed
  next
    case None
    show ?thesis
    proof (cases "begin_fault e")
      case (Some err)
      with None Inr v show ?thesis
        by (simp add: createTransactionRepo_def perform_def begin_uow_def)
    next
      case bf: None
      let ?u = "\<lparr>view = db, state = Active\<rparr>"
      obtain r u' where tb: "try_body e d w bal amt ?u = (r, u')"
        by (cases "try_body e d w bal amt ?u")
      show ?thesis
      proof (cases r)
        case (Inl err)
        with tb None bf Inr v show ?thesis
          by (auto simp: createTransactionRepo_def perform_def begin_uow_def rollback_own_def
              split: option.splits)
      next
        case r: (Inr row)
        from try_body_Inr[of e d w bal amt ?u row u'] tb r obtain w' where
          "update_balance d w bal amt = Inr w'" "row = new_row e d"
          "u' = ?u\<lparr>view := \<lparr>wallets = set_balance (wallet_id w') (balance w') (wallets (view ?u)),
                              transactions = transactions (view ?u) @ [new_row e d]\<rparr>\<rparr>"
          by auto
        with update_balance_id[of d w bal amt w'] wid tb r None bf Inr v show ?thesis
          by (auto simp: createTransactionRepo_def perform_def begin_uow_def rollback_own_def
              split: option.splits intro!: exI[of _ "balance w'"])
      qed
    qed
  qed
qed

text \<open>The theorem at a payment of 30 and at a payment of 200 from a wallet holding 70, the
  second one also inside a unit of work of the caller.\<close>

theorem createTransactionRepo_all_or_nothing_witness:
  "result (createTransactionRepo ex_env (ex_pay 30) None ex_db) = Inr (new_row ex_env (ex_pay 30))
   \<and> (\<exists>b. committed (createTransactionRepo ex_env (ex_pay 30) None ex_db) =
            \<lparr>wallets = set_balance 1 b (wallets ex_db),
             transactions = transactions ex_db @ [new_row ex_env (ex_pay 30)]\<rparr>)
   \<and> result (createTransactionRepo ex_env (ex_pay 200) None ex_db) =
       Inl (new_ErrorType ''InsufficientFundsError'' ''Insufficient wallet balance'')
   \<and> committed (createTransactionRepo ex_env (ex_pay 200) None ex_db) = ex_db
   \<and> result (createTransactionRepo ex_env (ex_pay 200) (Some ex_uow) ex_db) =
       Inl (new_ErrorType ''InsufficientFundsError'' ''Insufficient wallet balance'')
   \<and> committed (createTransactionRepo ex_env (ex_pay 200) (Some ex_uow) ex_db) = ex_db"
proof -
  have ok: "result (createTransactionRepo ex_env (ex_pay 30) None ex_db)
              = Inr (new_row ex_env (ex_pay 30))"
    by (simp add: engine_defs ex_defs)
  have bad: "result (createTransactionRepo ex_env (ex_pay 200) None ex_db)
              = Inl (new_ErrorType ''InsufficientFundsError'' ''Insufficient wallet balance'')"
    by (simp add: engine_defs ex_defs)
  have bad': "result (createTransactionRepo ex_env (ex_pay 200) (Some ex_uow) ex_db)
              = Inl (new_ErrorType ''InsufficientFundsError'' ''Insufficient wallet balance'')"
    by (simp add: engine_defs ex_defs)
  have w: "walletId (ex_pay 30) = 1" by (simp add: ex_defs)
  from createTransactionRepo_all_or_nothing[of ex_env "ex_pay 30" None ex_db] ok w
  have 1: "\<exists>b. committed (createTransactionRepo ex_env (ex_pay 30) None ex_db) =
            \<lparr>wallets = set_balance 1 b (wallets ex_db),
             transactions = transactions ex_db @ [new_row ex_env (ex_pay 30)]\<rparr>"
    by (simp add: Let_def)
  from createTransactionRepo_all_or_nothing[of ex_env "ex_pay 200" None ex_db] bad
  have 2: "committed (createTransactionRepo ex_env (ex_pay 200) None ex_db) = ex_db"
    by (simp add: Let_def)
  from createTransactionRepo_all_or_nothing[of ex_env "ex_pay 200" "Some ex_uow" ex_db] bad'
  have 3: "committed (createTransactionRepo ex_env (ex_pay 200) (Some ex_uow) ex_db) = ex_db"
    by (simp add: Let_def)
  from ok bad bad' 1 2 3 show ?thesis by blast
qed

text \<open>The claim as first stated fails for a unit of work supplied by the caller: a payment
  of 200 from a wallet holding 70 fails with \<open>InsufficientFundsError\<close>, and the row
  created before the balance check is in the caller's unit of work afterwards, which had
  no row before.\<close>

theorem caller_uow_keeps_row_counterexample:
  "result (createTransactionRepo ex_env (ex_pay 200) (Some ex_uow) ex_db)
     = Inl (new_ErrorType ''InsufficientFundsError'' ''Insufficient wallet balance'')
   \<and> caller_uow (createTransactionRepo ex_env (ex_pay 200) (Some ex_uow) ex_db)
     = Some \<lparr>view = \<lparr>wallets = wallets ex_db, transactions = [new_row ex_env (ex_pay 200)]\<rparr>,
             state = Active\<rparr>
   \<and> transactions (view ex_uow) = []"
  by (simp add: engine_defs ex_defs)

section \<open>Non-negative balances\<close>











section \<open>The duplicate check\<close>

lemma unique_refs_append:
  assumes "unique_refs rows"
    and "truthy (referenceId x) \<Longrightarrow> \<not> isDeleted x \<Longrightarrow>
           find (\<lambda>y. referenceId y = referenceId x \<and> type y = type x \<and> \<not> isDeleted y) rows = None"
  shows "unique_refs (rows @ [x])"
  using assms by (auto simp: unique_refs_def find_None_iff)

lemma validate_new_row_fresh:
  assumes "validate e d t db = Inr (w, bal, amt)" and "truthy (referenceId (new_row e d))"
  shows "find (\<lambda>y. referenceId y = referenceId (new_row e d) \<and> type y = type (new_row e d)
                  \<and> \<not> isDeleted y) (transactions (reads t db)) = None"
  using validate_Inr(9)[OF assms(1)] assms(2) by (simp add: new_row_def)

lemma try_body_unique_refs:
  assumes "try_body e d w bal amt u = (r, u')" and "unique_refs (transactions (view u))"
    and "validate e d t db = Inr (w, bal, amt)" and "reads t db = view u"
  shows "unique_refs (transactions (view u'))"
proof -
  have app: "unique_refs (transactions (view u) @ [new_row e d])"
    using assms(2) validate_new_row_fresh[OF assms(3)] assms(4)
    by (intro unique_refs_append) simp_all
  show ?thesis
  proof (cases r)
    case (Inl err)
    with try_body_Inl[of e d w bal amt u err u'] assms(1,2) app show ?thesis by auto
  next
    case (Inr row)
    with try_body_Inr[of e d w bal amt u row u'] assms(1) app show ?thesis by auto
  qed
qed

lemma repo_unique_refs:
  assumes "unique_refs (transactions db)" and "unique_refs (transactions (reads t db))"
  shows "unique_refs (transactions (committed (createTransactionRepo e d t db)))"
    and "\<And>u'. caller_uow (createTransactionRepo e d t db) = Some u'
           \<Longrightarrow> unique_refs (transactions (view u'))"
proof -
  have "unique_refs (transactions (committed (createTransactionRepo e d t db)))
        \<and> (\<forall>u'. caller_uow (createTransactionRepo e d t db) = Some u'
              \<longrightarrow> unique_refs (transactions (view u')))"
  proof (cases rule: repo_cases[of e d t db])
    case (validate_Inl err)
    with assms show ?thesis by (auto simp: repo_validate_Inl reads_def)
  next
    case (caller u w r u')
    from assms(2) caller(1) have "unique_refs (transactions (view u'))"
      by (intro try_body_unique_refs[OF caller(3) _ caller(2)]) (simp_all add: reads_def)
    with caller assms(1) show ?thesis by (simp add: repo_caller)
  next
    case (begin_fault w err)
    with assms show ?thesis by (simp add: repo_begin_fault)
  next
    case (own_Inl w err u')
    with assms show ?thesis by (simp add: repo_own_Inl split: option.splits)
  next
    case (own_Inr w row u')
    from assms(1) own_Inr(1) have "unique_refs (transactions (view u'))"
      by (intro try_body_unique_refs[OF own_Inr(4) _ own_Inr(2)]) (simp_all add: reads_def)
    with own_Inr assms show ?thesis by (simp add: repo_own_Inr split: option.splits)
  qed
  then show "unique_refs (transactions (committed (createTransactionRepo e d t db)))"
    and "\<And>u'. caller_uow (createTransactionRepo e d t db) = Some u'
           \<Longrightarrow> unique_refs (transactions (view u'))"
    by blast+
qed

lemma run_unique_refs: "unique_refs (transactions db) \<Longrightarrow> unique_refs (transactions (run cs db))"
proof (induction cs arbitrary: db)
  case Nil
  then show ?case by simp
next
  case (Cons c cs)
  obtain e d where c: "c = (e, d)" by (cases c)
  from Cons.prems
  have "unique_refs (transactions (committed (createTransactionRepo e d None db)))"
    by (intro repo_unique_refs(1)) (simp_all add: reads_def)
  with Cons.IH show ?case by (simp add: c)
qed

lemma duplicate_rejected:
  assumes "truthy (referenceId d)"
    and "findByPk_fault e = None" and "findOne_fault e = None"
    and "find (\<lambda>w. wallet_id w = walletId d) (wallets (reads t db)) = Some w"
    and "x \<in> set (transactions (reads t db))"
    and "referenceId x = referenceId d" and "type x = type d" and "\<not> isDeleted x"
  shows "createTransactionRepo e d t db =
           \<lparr>result = Inl (new_ErrorType ''DuplicateTransactionError''
                           (''Transaction already exists for reference ''
                            @ or_default (referenceId d) [])),
            committed = db, caller_uow = t, own_uow = None, lifecycle = []\<rparr>"
proof -
  from assms(5-8)
  have "find (\<lambda>y. referenceId y = referenceId d \<and> type y = type d \<and> \<not> isDeleted y)
          (transactions (reads t db)) \<noteq> None"
    by (auto simp: find_None_iff)
  then obtain y where
    "find (\<lambda>y. referenceId y = referenceId d \<and> type y = type d \<and> \<not> isDeleted y)
          (transactions (reads t db)) = Some y" by blast
  with assms(1-4)
  have "validate e d t db = Inl (new_ErrorType ''DuplicateTransactionError''
          (''Transaction already exists for reference ''
                            @ or_default (referenceId d) []))"
    by (auto simp: validate_def findByPk_def findOne_def truthy_def or_default_def
        split: option.splits)
  then show ?thesis
    by (simp add: repo_validate_Inl rethrow_def new_ErrorType_def or_default_def)
qed

text \<open>
  C3 (as amended). For every call that supplies a non-empty \<open>referenceId\<close>, on a wallet that
  exists and with the two lookups not failing in the storage layer: if a row that is not
  deleted has the same \<open>referenceId\<close> and \<open>type\<close>, the call fails with
  \<open>DuplicateTransactionError\<close> before any mutation (the committed tables and the caller's
  unit of work are as before, and no unit of work is opened). Consequently a call, and any
  sequence of calls, keeps the property that at most one row that is not deleted exists
  for each pair of a non-empty \<open>referenceId\<close> and a \<open>type\<close>. A null or empty \<open>referenceId\<close>
  is not checked.
\<close>

theorem duplicate_reference_rejected:
  "(truthy (referenceId d) \<and> findByPk_fault e = None \<and> findOne_fault e = None
      \<and> find (\<lambda>w. wallet_id w = walletId d) (wallets (reads t db)) \<noteq> None
      \<and> (\<exists>x \<in> set (transactions (reads t db)).
            referenceId x = referenceId d \<and> type x = type d \<and> \<not> isDeleted x)
    \<longrightarrow> createTransactionRepo e d t db =
          \<lparr>result = Inl (new_ErrorType ''DuplicateTransactionError''
                          (''Transaction already exists for reference ''
                            @ or_default (referenceId d) [])),
           committed = db, caller_uow = t, own_uow = None, lifecycle = []\<rparr>)
   \<and> (unique_refs (transactions db) \<and> unique_refs (transactions (reads t db))
      \<longrightarrow> unique_refs (transactions (committed (createTransactionRepo e d t db)))
          \<and> (\<forall>u'. caller_uow (createTransactionRepo e d t db) = Some u'
                \<longrightarrow> unique_refs (transactions (view u')))
          \<and> unique_refs (transactions (run cs db)))"
proof (intro conjI impI)
  assume a: "truthy (referenceId d) \<and> findByPk_fault e = None \<and> findOne_fault e = None
      \<and> find (\<lambda>w. wallet_id w = walletId d) (wallets (reads t db)) \<noteq> None
      \<and> (\<exists>x \<in> set (transactions (reads t db)).
            referenceId x = referenceId d \<and> type x = type d \<and> \<not> isDeleted x)"
  then obtain w where w: "find (\<lambda>w. wallet_id w = walletId d) (wallets (reads t db)) = Some w"
    by blast
  from a obtain x where x: "x \<in> set (transactions (reads t db))"
    "referenceId x = referenceId d" "type x = type d" "\<not> isDeleted x"
    by blast
  from a have "truthy (referenceId d)" "findByPk_fault e = None" "findOne_fault e = None"
    by simp_all
  then show "createTransactionRepo e d t db =
          \<lparr>result = Inl (new_ErrorType ''DuplicateTransactionError''
                          (''Transaction already exists for reference ''
                            @ or_default (referenceId d) [])),
           committed = db, caller_uow = t, own_uow = None, lifecycle = []\<rparr>"
    using w x by (rule duplicate_rejected)
next
  assume u: "unique_refs (transactions db) \<and> unique_refs (transactions (reads t db))"
  then have u1: "unique_refs (transactions db)" and u2: "unique_refs (transactions (reads t db))"
    by simp_all
  from u1 u2 show "unique_refs (transactions (committed (createTransactionRepo e d t db)))"
    by (rule repo_unique_refs(1))
  show "\<forall>u'. caller_uow (createTransactionRepo e d t db) = Some u'
                \<longrightarrow> unique_refs (transactions (view u'))"
    using repo_unique_refs(2)[OF u1 u2] by blast
  from u1 show "unique_refs (transactions (run cs db))" by (rule run_unique_refs)
qed

text \<open>The theorem at a deposit under the reference \<open>ref1\<close> that the tables already hold,
  and at a deposit under a new reference.\<close>

theorem duplicate_reference_rejected_witness:
  "createTransactionRepo ex_env (ex_deposit (Some ''ref1'')) None (ex_db_with (Some ''ref1'')) =
     \<lparr>result = Inl (new_ErrorType ''DuplicateTransactionError''
                     ''Transaction already exists for reference ref1''),
      committed = ex_db_with (Some ''ref1''), caller_uow = None, own_uow = None, lifecycle = []\<rparr>
   \<and> unique_refs (transactions (ex_db_with (Some ''ref1'')))
   \<and> unique_refs (transactions (committed
         (createTransactionRepo ex_env (ex_deposit (Some ''ref2'')) None
            (ex_db_with (Some ''ref1'')))))"
proof -
  have pre: "truthy (referenceId (ex_deposit (Some ''ref1'')))"
    "findByPk_fault ex_env = None" "findOne_fault ex_env = None"
    "find (\<lambda>w. wallet_id w = walletId (ex_deposit (Some ''ref1'')))
       (wallets (reads None (ex_db_with (Some ''ref1'')))) \<noteq> None"
    "\<exists>x \<in> set (transactions (reads None (ex_db_with (Some ''ref1'')))).
       referenceId x = referenceId (ex_deposit (Some ''ref1''))
       \<and> type x = type (ex_deposit (Some ''ref1'')) \<and> \<not> isDeleted x"
    by (simp_all add: truthy_def reads_def new_row_def ex_defs)
  have uniq: "unique_refs (transactions (ex_db_with (Some ''ref1'')))"
    "unique_refs (transactions (reads None (ex_db_with (Some ''ref1''))))"
    by (simp_all add: unique_refs_def truthy_def reads_def new_row_def ex_defs)
  have msg: "''Transaction already exists for reference ''
               @ or_default (referenceId (ex_deposit (Some ''ref1''))) []
             = ''Transaction already exists for reference ref1''"
    by (simp add: or_default_def ex_defs)
  from duplicate_reference_rejected[of "ex_deposit (Some ''ref1'')" ex_env None
      "ex_db_with (Some ''ref1'')" "[]"] pre msg
  have 1: "createTransactionRepo ex_env (ex_deposit (Some ''ref1'')) None
             (ex_db_with (Some ''ref1'')) =
     \<lparr>result = Inl (new_ErrorType ''DuplicateTransactionError''
                     ''Transaction already exists for reference ref1''),
      committed = ex_db_with (Some ''ref1''), caller_uow = None, own_uow = None, lifecycle = []\<rparr>"
    by simp
  from duplicate_reference_rejected[of "ex_deposit (Some ''ref2'')" ex_env None
      "ex_db_with (Some ''ref1'')" "[]"] uniq
  have 2: "unique_refs (transactions (committed
         (createTransactionRepo ex_env (ex_deposit (Some ''ref2'')) None
            (ex_db_with (Some ''ref1'')))))"
    by blast
  from 1 uniq(1) 2 show ?thesis by blast
qed

text \<open>The claim as first stated fails for the empty string, which is not null: the tables
  hold a row that is not deleted, with the empty reference and the type \<open>DEPOSIT\<close>; the call
  with the same pair succeeds, and two such rows are committed.\<close>

theorem empty_reference_not_checked_counterexample:
  "referenceId (ex_deposit (Some [])) \<noteq> None
   \<and> transactions (ex_db_with (Some [])) = [new_row ex_env (ex_deposit (Some []))]
   \<and> referenceId (new_row ex_env (ex_deposit (Some []))) = referenceId (ex_deposit (Some []))
   \<and> type (new_row ex_env (ex_deposit (Some []))) = type (ex_deposit (Some []))
   \<and> \<not> isDeleted (new_row ex_env (ex_deposit (Some [])))
   \<and> result (createTransactionRepo (ex_env\<lparr>new_id := 2\<rparr>) (ex_deposit (Some [])) None
               (ex_db_with (Some [])))
       = Inr (new_row (ex_env\<lparr>new_id := 2\<rparr>) (ex_deposit (Some [])))
   \<and> transactions (committed (createTransactionRepo (ex_env\<lparr>new_id := 2\<rparr>)
                                (ex_deposit (Some [])) None (ex_db_with (Some []))))
       = [new_row ex_env (ex_deposit (Some [])),
          new_row (ex_env\<lparr>new_id := 2\<rparr>) (ex_deposit (Some []))]"
  by (simp add: engine_defs ex_defs)

section \<open>Direction of the balance change\<close>

lemma other_type_fails:
  assumes "type d \<noteq> PAY_SERVICE" "type d \<noteq> DEPOSIT" "type d \<noteq> REFUND_SERVICE"
  shows "\<exists>err. result (createTransactionRepo e d t db) = Inl err"
proof (cases "result (createTransactionRepo e d t db)")
  case (Inl err)
  then show ?thesis by blast
next
  case (Inr row)
  from repo_Inr[OF this] assms have False by (auto simp: update_balance_def)
  then show ?thesis ..
qed

text \<open>
  C4 (as amended). On a wallet whose balance is the binary64 value \<open>b\<close> and for an amount
  that is the binary64 value \<open>a\<close> with \<open>0 \<le> a\<close>: a successful call of type \<open>DEPOSIT\<close> or
  \<open>REFUND_SERVICE\<close> writes the binary64 sum of \<open>b\<close> and \<open>a\<close>, that is \<open>b + a\<close> rounded to the nearest
  binary64 value, when that value is finite; a successful call of type \<open>PAY_SERVICE\<close> has
  \<open>a \<le> b\<close> and writes the binary64 difference, \<open>b - a\<close> rounded; the balance is written to
  the wallet addressed and to no other; and no call of another type succeeds. A call of
  one of the three types (with \<open>a \<le> b\<close> for \<open>PAY_SERVICE\<close>) does succeed when no storage call
  throws and the duplicate check finds no row. A call of any other type fails, changes
  nothing in the committed tables and changes no wallet; its error is \<open>InvalidTypeError\<close>
  when no storage call throws and the duplicate check finds no row. The row created before
  the branch on the type is discarded with a unit of work the call opened (when the
  rollback does not throw), and is left in a unit of work supplied by the caller.
\<close>

theorem type_direction:
  assumes "find (\<lambda>w. wallet_id w = walletId d) (wallets (reads t db)) = Some w"
    and "balance w = Num b" and "amount d = Num a" and "0 \<le> a"
    and "binary64 b" and "binary64 a"
  shows
    "(\<forall>row. result (createTransactionRepo e d t db) = Inr row \<longrightarrow>
        ((type d = DEPOSIT \<or> type d = REFUND_SERVICE) \<and> \<bar>round64 (b + a)\<bar> \<le> max_double \<longrightarrow>
           wallets (reads (caller_uow (createTransactionRepo e d t db))
                          (committed (createTransactionRepo e d t db)))
             = set_balance (walletId d) (Num (round64 (b + a))) (wallets (reads t db)))
        \<and> (type d = PAY_SERVICE \<longrightarrow>
             a \<le> b
             \<and> wallets (reads (caller_uow (createTransactionRepo e d t db))
                              (committed (createTransactionRepo e d t db)))
                 = set_balance (walletId d) (Num (round64 (b - a))) (wallets (reads t db)))
        \<and> (type d = DEPOSIT \<or> type d = REFUND_SERVICE \<or> type d = PAY_SERVICE))
     \<and> (no_faults e \<and> \<not> duplicate d (reads t db)
          \<and> (type d = DEPOSIT \<or> type d = REFUND_SERVICE \<or> type d = PAY_SERVICE \<and> a \<le> b)
        \<longrightarrow> result (createTransactionRepo e d t db) = Inr (new_row e d))
     \<and> (type d \<noteq> PAY_SERVICE \<and> type d \<noteq> DEPOSIT \<and> type d \<noteq> REFUND_SERVICE \<longrightarrow>
          (\<exists>err. result (createTransactionRepo e d t db) = Inl err)
          \<and> committed (createTransactionRepo e d t db) = db
          \<and> (\<forall>u'. caller_uow (createTransactionRepo e d t db) = Some u'
                \<longrightarrow> wallets (view u') = wallets (reads t db))
          \<and> (t = None \<and> rollback_fault e = None \<longrightarrow>
                (\<forall>u'. own_uow (createTransactionRepo e d t db) = Some u'
                   \<longrightarrow> u' = \<lparr>view = db, state = RolledBack\<rparr>))
          \<and> (no_faults e \<and> \<not> duplicate d (reads t db) \<longrightarrow>
                result (createTransactionRepo e d t db)
                  = Inl (new_ErrorType ''InvalidTypeError''
                           ''Transaction type must be PAY_SERVICE or DEPOSIT'')))"
proof (intro conjI allI impI)
  fix row assume ok: "result (createTransactionRepo e d t db) = Inr row"
  from repo_Inr[OF ok] obtain w0 w' where
    val: "validate e d t db = Inr (w0, balance w0, amount d)"
    and upd: "update_balance d w0 (balance w0) (amount d) = Inr w'"
    and tabs: "reads (caller_uow (createTransactionRepo e d t db))
                    (committed (createTransactionRepo e d t db))
               = \<lparr>wallets = set_balance (walletId d) (balance w') (wallets (reads t db)),
                  transactions = transactions (reads t db) @ [row]\<rparr>"
    by blast
  from validate_Inr(2)[OF val] assms(1) have w0: "w0 = w" by simp
  show "type d = DEPOSIT \<or> type d = REFUND_SERVICE \<or> type d = PAY_SERVICE"
    using upd by (auto simp: update_balance_def split: if_splits)
  { assume "(type d = DEPOSIT \<or> type d = REFUND_SERVICE) \<and> \<bar>round64 (b + a)\<bar> \<le> max_double"
    with upd w0 assms(2,3) have "balance w' = Num (round64 (b + a))"
      by (auto simp: update_balance_def)
    with tabs show "wallets (reads (caller_uow (createTransactionRepo e d t db))
                          (committed (createTransactionRepo e d t db)))
             = set_balance (walletId d) (Num (round64 (b + a))) (wallets (reads t db))" by simp }
  { assume "type d = PAY_SERVICE"
    with upd w0 assms(2,3) have "balance w' = Num (round64 (b - a))" and le: "a \<le> b"
      by (auto simp: update_balance_def split: if_splits)
    from le show "a \<le> b" .
    from \<open>balance w' = Num (round64 (b - a))\<close> tabs
    show "wallets (reads (caller_uow (createTransactionRepo e d t db))
                          (committed (createTransactionRepo e d t db)))
             = set_balance (walletId d) (Num (round64 (b - a))) (wallets (reads t db))" by simp }
next
  assume a: "no_faults e \<and> \<not> duplicate d (reads t db)
          \<and> (type d = DEPOSIT \<or> type d = REFUND_SERVICE \<or> type d = PAY_SERVICE \<and> a \<le> b)"
  with assms have "result (createTransactionRepo e d t db)
          = (case update_balance d w (balance w) (amount d) of
               Inl err \<Rightarrow> Inl (rethrow err) | Inr w' \<Rightarrow> Inr (new_row e d))"
    by (intro repo_no_faults_Inr(2)) auto
  with a assms show "result (createTransactionRepo e d t db) = Inr (new_row e d)"
    by (auto simp: update_balance_def)
next
  assume o: "type d \<noteq> PAY_SERVICE \<and> type d \<noteq> DEPOSIT \<and> type d \<noteq> REFUND_SERVICE"
  then obtain err where err: "result (createTransactionRepo e d t db) = Inl err"
    using other_type_fails[of d e t db] by blast
  then show "\<exists>err. result (createTransactionRepo e d t db) = Inl err" ..
  from err show "committed (createTransactionRepo e d t db) = db" by (rule repo_Inl(1))
  { fix u' assume "caller_uow (createTransactionRepo e d t db) = Some u'"
    with err show "wallets (view u') = wallets (reads t db)" by (rule repo_Inl(2)) }
  { fix u' assume "t = None \<and> rollback_fault e = None"
      and "own_uow (createTransactionRepo e d t db) = Some u'"
    with err show "u' = \<lparr>view = db, state = RolledBack\<rparr>"
      by (cases rule: repo_cases[of e d t db])
        (auto simp: repo_validate_Inl repo_begin_fault repo_own_Inl repo_own_Inr
          split: option.splits) }
  { assume a: "no_faults e \<and> \<not> duplicate d (reads t db)"
    with assms have "result (createTransactionRepo e d t db)
          = (case update_balance d w (balance w) (amount d) of
               Inl err \<Rightarrow> Inl (rethrow err) | Inr w' \<Rightarrow> Inr (new_row e d))"
      by (intro repo_no_faults_Inr(2)) auto
    with o show "result (createTransactionRepo e d t db)
                  = Inl (new_ErrorType ''InvalidTypeError''
                           ''Transaction type must be PAY_SERVICE or DEPOSIT'')"
      by (simp add: update_balance_def rethrow_def new_ErrorType_def or_default_def) }
qed

text \<open>The theorem at a wallet holding 70: a deposit of 10, a payment of 30, and a request
  of another type.\<close>

theorem type_direction_witness:
  "wallets (committed (createTransactionRepo ex_env (ex_deposit None) None ex_db))
     = [\<lparr>wallet_id = 1, balance = Num 80\<rparr>]
   \<and> wallets (committed (createTransactionRepo ex_env (ex_pay 30) None ex_db))
     = [\<lparr>wallet_id = 1, balance = Num 40\<rparr>]
   \<and> result (createTransactionRepo ex_env ex_other None ex_db)
     = Inl (new_ErrorType ''InvalidTypeError'' ''Transaction type must be PAY_SERVICE or DEPOSIT'')
   \<and> committed (createTransactionRepo ex_env ex_other None ex_db) = ex_db"
proof -
  let ?w = "\<lparr>wallet_id = 1, balance = Num 70\<rparr>"
  have env: "no_faults ex_env" by (simp add: no_faults_def ex_defs)
  have b64: "binary64 70" "binary64 10" "binary64 30"
    by (simp_all add: binary64_numeral)
  have "binary64 80" by (simp add: binary64_numeral)
  then have fin: "\<bar>round64 (70 + 10)\<bar> \<le> max_double" by (simp add: binary64_def)
  have dep: "find (\<lambda>w. wallet_id w = walletId (ex_deposit None)) (wallets (reads None ex_db))
               = Some ?w"
    "balance ?w = Num 70" "amount (ex_deposit None) = Num 10" "(0::real) \<le> 10"
    "\<not> duplicate (ex_deposit None) (reads None ex_db)" "type (ex_deposit None) = DEPOSIT"
    "walletId (ex_deposit None) = 1"
    by (simp_all add: reads_def duplicate_def truthy_def ex_defs)
  have pay: "find (\<lambda>w. wallet_id w = walletId (ex_pay 30)) (wallets (reads None ex_db))
               = Some ?w"
    "amount (ex_pay 30) = Num 30" "(0::real) \<le> 30"
    "\<not> duplicate (ex_pay 30) (reads None ex_db)" "type (ex_pay 30) = PAY_SERVICE"
    "walletId (ex_pay 30) = 1" "(30::real) \<le> 70"
    by (simp_all add: reads_def duplicate_def truthy_def ex_defs)
  have oth: "find (\<lambda>w. wallet_id w = walletId ex_other) (wallets (reads None ex_db)) = Some ?w"
    "amount ex_other = Num 10"
    "\<not> duplicate ex_other (reads None ex_db)"
    "type ex_other \<noteq> PAY_SERVICE \<and> type ex_other \<noteq> DEPOSIT \<and> type ex_other \<noteq> REFUND_SERVICE"
    by (simp_all add: reads_def duplicate_def truthy_def ex_defs)
  have ws: "set_balance 1 (Num (round64 (70 + 10))) (wallets (reads None ex_db))
              = [\<lparr>wallet_id = 1, balance = Num 80\<rparr>]"
    "set_balance 1 (Num (round64 (70 - 30))) (wallets (reads None ex_db))
              = [\<lparr>wallet_id = 1, balance = Num 40\<rparr>]"
    by (simp_all add: set_balance_def reads_def round64_numeral ex_defs)
  note d = type_direction[OF dep(1,2,3,4) b64(1,2), of ex_env]
  from d env dep(5,6)
  have d1: "result (createTransactionRepo ex_env (ex_deposit None) None ex_db)
              = Inr (new_row ex_env (ex_deposit None))" by blast
  from d d1 dep(6) fin
  have "wallets (reads (caller_uow (createTransactionRepo ex_env (ex_deposit None) None ex_db))
                       (committed (createTransactionRepo ex_env (ex_deposit None) None ex_db)))
          = set_balance (walletId (ex_deposit None)) (Num (round64 (70 + 10)))
              (wallets (reads None ex_db))"
    by blast
  moreover have "caller_uow (createTransactionRepo ex_env (ex_deposit None) None ex_db) = None"
    by (simp add: engine_defs ex_defs)
  ultimately have 1: "wallets (committed (createTransactionRepo ex_env (ex_deposit None) None ex_db))
     = [\<lparr>wallet_id = 1, balance = Num 80\<rparr>]"
    using ws(1) dep(7) by (simp add: reads_def)
  note p = type_direction[OF pay(1) dep(2) pay(2,3) b64(1,3), of ex_env]
  from p env pay(4,5,7)
  have p1: "result (createTransactionRepo ex_env (ex_pay 30) None ex_db)
              = Inr (new_row ex_env (ex_pay 30))" by blast
  from p p1 pay(5)
  have "wallets (reads (caller_uow (createTransactionRepo ex_env (ex_pay 30) None ex_db))
                       (committed (createTransactionRepo ex_env (ex_pay 30) None ex_db)))
          = set_balance (walletId (ex_pay 30)) (Num (round64 (70 - 30)))
              (wallets (reads None ex_db))"
    by blast
  moreover have "caller_uow (createTransactionRepo ex_env (ex_pay 30) None ex_db) = None"
    by (simp add: engine_defs ex_defs)
  ultimately have 2: "wallets (committed (createTransactionRepo ex_env (ex_pay 30) None ex_db))
     = [\<lparr>wallet_id = 1, balance = Num 40\<rparr>]"
    using ws(2) pay(6) by (simp add: reads_def)
  note q = type_direction[OF oth(1) dep(2) oth(2) dep(4) b64(1,2), of ex_env]
  from q env oth(3,4)
  have 3: "result (createTransactionRepo ex_env ex_other None ex_db)
     = Inl (new_ErrorType ''InvalidTypeError'' ''Transaction type must be PAY_SERVICE or DEPOSIT'')
   \<and> committed (createTransactionRepo ex_env ex_other None ex_db) = ex_db"
    by blast
  from 1 2 3 show ?thesis by blast
qed

text \<open>The claim as first stated fails in two places. A deposit of 1 to a wallet holding
  \<open>2 ^ 53\<close> succeeds and writes \<open>2 ^ 53\<close>, the binary64 sum, and not \<open>2 ^ 53 + 1\<close>. And inside a
  unit of work of the caller, the request of another type fails with \<open>InvalidTypeError\<close>,
  and the unit of work, which held no row, holds the created row afterwards.\<close>

theorem type_direction_counterexample:
  "result (createTransactionRepo ex_env ex_deposit_one None ex_db_big)
     = Inr (new_row ex_env ex_deposit_one)
   \<and> wallets ex_db_big = [\<lparr>wallet_id = 1, balance = Num 9007199254740992\<rparr>]
   \<and> amount ex_deposit_one = Num 1
   \<and> wallets (committed (createTransactionRepo ex_env ex_deposit_one None ex_db_big))
     = [\<lparr>wallet_id = 1, balance = Num 9007199254740992\<rparr>]
   \<and> (9007199254740992::real) + 1 \<noteq> 9007199254740992
   \<and> result (createTransactionRepo ex_env ex_other (Some ex_uow) ex_db)
     = Inl (new_ErrorType ''InvalidTypeError'' ''Transaction type must be PAY_SERVICE or DEPOSIT'')
   \<and> transactions (view ex_uow) = []
   \<and> caller_uow (createTransactionRepo ex_env ex_other (Some ex_uow) ex_db)
     = Some \<lparr>view = \<lparr>wallets = wallets ex_db, transactions = [new_row ex_env ex_other]\<rparr>,
             state = Active\<rparr>"
  by (simp add: engine_defs ex_defs round64_tie)

section \<open>Ownership of the unit of work\<close>

lemma try_body_state: "try_body e d w bal amt u = (r, u') \<Longrightarrow> state u' = state u"
  by (cases r) (auto dest: try_body_Inl try_body_Inr)

text \<open>
  C5. When the caller supplies a unit of work, the call issues no begin, commit or rollback,
  opens no unit of work of its own, leaves the committed tables alone, and returns the
  caller's unit of work in the lifecycle state it had, on success and on error. When the
  call opens its own unit of work, that unit of work ends committed exactly when the call
  succeeds, the calls issued are then begin and commit, and the committed tables are its
  view; when the call fails, the last call issued is the rollback, the committed tables
  are unchanged, and the unit of work is rolled back unless the rollback itself throws.
  A call that fails before opening a unit of work issues neither commit nor rollback.
\<close>

theorem unit_of_work_ownership:
  "(\<forall>u. t = Some u \<longrightarrow>
       lifecycle (createTransactionRepo e d t db) = []
       \<and> own_uow (createTransactionRepo e d t db) = None
       \<and> committed (createTransactionRepo e d t db) = db
       \<and> (\<exists>u'. caller_uow (createTransactionRepo e d t db) = Some u' \<and> state u' = state u))
   \<and> (t = None \<longrightarrow>
       caller_uow (createTransactionRepo e d t db) = None
       \<and> (own_uow (createTransactionRepo e d t db) = None \<longrightarrow>
            (\<exists>err. result (createTransactionRepo e d t db) = Inl err)
            \<and> Commit \<notin> set (lifecycle (createTransactionRepo e d t db))
            \<and> Rollback \<notin> set (lifecycle (createTransactionRepo e d t db)))
       \<and> (\<forall>u'. own_uow (createTransactionRepo e d t db) = Some u' \<longrightarrow>
            ((\<exists>row. result (createTransactionRepo e d t db) = Inr row) \<longleftrightarrow> state u' = Committed)
            \<and> ((\<exists>row. result (createTransactionRepo e d t db) = Inr row) \<longrightarrow>
                  lifecycle (createTransactionRepo e d t db) = [Begin, Commit]
                  \<and> committed (createTransactionRepo e d t db) = view u')
            \<and> ((\<exists>err. result (createTransactionRepo e d t db) = Inl err) \<longrightarrow>
                  last (lifecycle (createTransactionRepo e d t db)) = Rollback
                  \<and> committed (createTransactionRepo e d t db) = db
                  \<and> (rollback_fault e = None \<longrightarrow> u' = \<lparr>view = db, state = RolledBack\<rparr>))))"
proof (cases rule: repo_cases[of e d t db])
  case (validate_Inl err)
  then show ?thesis by (cases t) (auto simp: repo_validate_Inl)
next
  case (caller u w r u')
  with try_body_state[OF caller(3)] show ?thesis by (simp add: repo_caller)
next
  case (begin_fault w err)
  then show ?thesis by (simp add: repo_begin_fault)
next
  case (own_Inl w err u')
  from try_body_state[OF own_Inl(4)] have "state u' = Active" by simp
  with own_Inl show ?thesis by (cases "rollback_fault e") (simp_all add: repo_own_Inl)
next
  case (own_Inr w row u')
  from try_body_state[OF own_Inr(4)] have "state u' = Active" by simp
  with own_Inr show ?thesis
    by (cases "commit_fault e"; cases "rollback_fault e") (simp_all add: repo_own_Inr)
qed

text \<open>The theorem at a failing payment inside the caller's unit of work, and at a
  successful and a failing payment without one.\<close>

theorem unit_of_work_ownership_witness:
  "lifecycle (createTransactionRepo ex_env (ex_pay 200) (Some ex_uow) ex_db) = []
   \<and> map_option state (caller_uow (createTransactionRepo ex_env (ex_pay 200) (Some ex_uow) ex_db))
       = Some Active
   \<and> own_uow (createTransactionRepo ex_env (ex_pay 30) None ex_db)
       = Some \<lparr>view = committed (createTransactionRepo ex_env (ex_pay 30) None ex_db),
               state = Committed\<rparr>
   \<and> lifecycle (createTransactionRepo ex_env (ex_pay 30) None ex_db) = [Begin, Commit]
   \<and> own_uow (createTransactionRepo ex_env (ex_pay 200) None ex_db)
       = Some \<lparr>view = ex_db, state = RolledBack\<rparr>
   \<and> last (lifecycle (createTransactionRepo ex_env (ex_pay 200) None ex_db)) = Rollback"
proof -
  have st: "state ex_uow = Active" "rollback_fault ex_env = None" by (simp_all add: ex_defs)
  from unit_of_work_ownership[of "Some ex_uow" ex_env "ex_pay 200" ex_db] st
  have 1: "lifecycle (createTransactionRepo ex_env (ex_pay 200) (Some ex_uow) ex_db) = []
   \<and> map_option state (caller_uow (createTransactionRepo ex_env (ex_pay 200) (Some ex_uow) ex_db))
       = Some Active"
    by auto
  have ok: "result (createTransactionRepo ex_env (ex_pay 30) None ex_db)
              = Inr (new_row ex_env (ex_pay 30))"
    "own_uow (createTransactionRepo ex_env (ex_pay 30) None ex_db) \<noteq> None"
    by (simp_all add: engine_defs ex_defs)
  then obtain u' where u': "own_uow (createTransactionRepo ex_env (ex_pay 30) None ex_db) = Some u'"
    by blast
  from unit_of_work_ownership[of None ex_env "ex_pay 30" ex_db] ok(1) u'
  have "state u' = Committed"
    "lifecycle (createTransactionRepo ex_env (ex_pay 30) None ex_db) = [Begin, Commit]"
    "committed (createTransactionRepo ex_env (ex_pay 30) None ex_db) = view u'"
    by auto
  with u' have 2: "own_uow (createTransactionRepo ex_env (ex_pay 30) None ex_db)
       = Some \<lparr>view = committed (createTransactionRepo ex_env (ex_pay 30) None ex_db),
               state = Committed\<rparr>
   \<and> lifecycle (createTransactionRepo ex_env (ex_pay 30) None ex_db) = [Begin, Commit]"
    by simp
  have bad: "result (createTransactionRepo ex_env (ex_pay 200) None ex_db)
              = Inl (new_ErrorType ''InsufficientFundsError'' ''Insufficient wallet balance'')"
    "own_uow (createTransactionRepo ex_env (ex_pay 200) None ex_db) \<noteq> None"
    by (simp_all add: engine_defs ex_defs)
  then obtain v' where v': "own_uow (createTransactionRepo ex_env (ex_pay 200) None ex_db) = Some v'"
    by blast
  from unit_of_work_ownership[of None ex_env "ex_pay 200" ex_db] bad(1) v' st(2)
  have 3: "own_uow (createTransactionRepo ex_env (ex_pay 200) None ex_db)
       = Some \<lparr>view = ex_db, state = RolledBack\<rparr>
   \<and> last (lifecycle (createTransactionRepo ex_env (ex_pay 200) None ex_db)) = Rollback"
    by auto
  from 1 2 3 show ?thesis by blast
qed

section \<open>Two calls in flight\<close>

text \<open>
  C6. The claim is that of two concurrent calls with the same \<open>referenceId\<close> and \<open>type\<close>
  exactly one succeeds, because the duplicate check, the wallet read and the write happen
  inside one unit of work. Every \<^verbatim>\<open>await\<close> of the source is a point at which another call
  may run, and without a handle from the caller the two lookups of the first half are
  issued outside any unit of work: the call opens its own only afterwards. The schedule
  evaluated here runs the first half (\<open>validate\<close>) of both calls on the same committed
  tables and then the second half (\<open>perform\<close>) of one after the other. Both calls succeed,
  two rows with the same reference and type are committed, and the wallet that held 70 holds
  40 although two payments of 30 are recorded.
\<close>

theorem concurrent_calls_both_succeed:
  "validate ex_env ex_ref_pay None ex_db = Inr (ex_wallet, Num 70, Num 30)
   \<and> validate ex_env2 ex_ref_pay None ex_db = Inr (ex_wallet, Num 70, Num 30)
   \<and> result (perform ex_env ex_ref_pay ex_wallet (Num 70) (Num 30) None ex_db)
       = Inr (new_row ex_env ex_ref_pay)
   \<and> result (perform ex_env2 ex_ref_pay ex_wallet (Num 70) (Num 30) None
               (committed (perform ex_env ex_ref_pay ex_wallet (Num 70) (Num 30) None ex_db)))
       = Inr (new_row ex_env2 ex_ref_pay)
   \<and> committed (perform ex_env2 ex_ref_pay ex_wallet (Num 70) (Num 30) None
               (committed (perform ex_env ex_ref_pay ex_wallet (Num 70) (Num 30) None ex_db)))
       = \<lparr>wallets = [\<lparr>wallet_id = 1, balance = Num 40\<rparr>],
          transactions = [new_row ex_env ex_ref_pay, new_row ex_env2 ex_ref_pay]\<rparr>
   \<and> referenceId (new_row ex_env ex_ref_pay) = referenceId (new_row ex_env2 ex_ref_pay)
   \<and> type (new_row ex_env ex_ref_pay) = type (new_row ex_env2 ex_ref_pay)"
proof -
  let ?db1 = "\<lparr>wallets = [\<lparr>wallet_id = 1, balance = Num 40\<rparr>],
               transactions = [new_row ex_env ex_ref_pay]\<rparr>"
  have checks: "validate ex_env ex_ref_pay None ex_db = Inr (ex_wallet, Num 70, Num 30)"
    "validate ex_env2 ex_ref_pay None ex_db = Inr (ex_wallet, Num 70, Num 30)"
    by (simp_all add: engine_defs ex_defs)
  have first: "perform ex_env ex_ref_pay ex_wallet (Num 70) (Num 30) None ex_db
      = \<lparr>result = Inr (new_row ex_env ex_ref_pay), committed = ?db1, caller_uow = None,
         own_uow = Some \<lparr>view = ?db1, state = Committed\<rparr>, lifecycle = [Begin, Commit]\<rparr>"
    by (simp add: engine_defs ex_defs round64_numeral)
  have second: "perform ex_env2 ex_ref_pay ex_wallet (Num 70) (Num 30) None ?db1
      = \<lparr>result = Inr (new_row ex_env2 ex_ref_pay),
         committed = \<lparr>wallets = [\<lparr>wallet_id = 1, balance = Num 40\<rparr>],
                      transactions = [new_row ex_env ex_ref_pay, new_row ex_env2 ex_ref_pay]\<rparr>,
         caller_uow = None,
         own_uow = Some \<lparr>view = \<lparr>wallets = [\<lparr>wallet_id = 1, balance = Num 40\<rparr>],
                                  transactions = [new_row ex_env ex_ref_pay,
                                                  new_row ex_env2 ex_ref_pay]\<rparr>,
                         state = Committed\<rparr>,
         lifecycle = [Begin, Commit]\<rparr>"
    by (simp add: engine_defs ex_defs round64_numeral)
  have same: "referenceId (new_row ex_env ex_ref_pay) = referenceId (new_row ex_env2 ex_ref_pay)"
    "type (new_row ex_env ex_ref_pay) = type (new_row ex_env2 ex_ref_pay)"
    by (simp_all add: new_row_def)
  from checks first second same show ?thesis by simp
qed

section \<open>Negative amounts\<close>

lemma negative_amount_outcome:
  assumes "amount d = Num a" and "a < 0"
  shows "\<exists>raw. validate e d t db = Inl raw"
proof (cases "validate e d t db")
  case (Inl raw)
  then show ?thesis by blast
next
  case (Inr v)
  obtain w bal amt where "v = (w, bal, amt)" by (cases v)
  with validate_Inr(4,7)[of e d t db w bal amt] Inr assms have False by auto
  then show ?thesis ..
qed

text \<open>
  C7 (as amended). A call with a negative amount, of any type, fails and mutates nothing:
  the committed tables and the caller's unit of work are as before and no unit of work is
  opened. It fails with \<open>InvalidAmountError\<close> when the checks that come first pass, that is
  when the wallet lookup does not throw, the wallet exists with a numeric balance, the
  duplicate lookup (made for a non-empty reference) does not throw and finds no row. A
  call whose amount is not negative, zero included, is never rejected with
  \<open>InvalidAmountError\<close>, provided no storage call throws, or would throw if issued, a value of
  that name.
\<close>

theorem negative_amount_rejected:
  "(\<forall>a. amount d = Num a \<and> a < 0 \<longrightarrow>
      (\<exists>err. createTransactionRepo e d t db =
               \<lparr>result = Inl err, committed = db, caller_uow = t, own_uow = None,
                lifecycle = []\<rparr>)
      \<and> (findByPk_fault e = None \<and> (truthy (referenceId d) \<longrightarrow> findOne_fault e = None)
           \<and> \<not> duplicate d (reads t db)
           \<and> (\<exists>w. find (\<lambda>w. wallet_id w = walletId d) (wallets (reads t db)) = Some w
                  \<and> \<not> isNaN (balance w))
         \<longrightarrow> result (createTransactionRepo e d t db)
               = Inl (new_ErrorType ''InvalidAmountError'' ''Amount cannot be negative'')))
   \<and> (\<not> lt (amount d) (Num 0) \<and> (\<forall>f \<in> set (faults e). name f \<noteq> Some ''InvalidAmountError'')
      \<longrightarrow> (\<forall>err. result (createTransactionRepo e d t db) = Inl err
                \<longrightarrow> name err \<noteq> Some ''InvalidAmountError''))"
proof (intro conjI allI impI)
  fix a assume neg: "amount d = Num a \<and> a < 0"
  then obtain raw where raw: "validate e d t db = Inl raw"
    using negative_amount_outcome[of d a e t db] by blast
  then show "\<exists>err. createTransactionRepo e d t db =
               \<lparr>result = Inl err, committed = db, caller_uow = t, own_uow = None,
                lifecycle = []\<rparr>"
    by (simp add: repo_validate_Inl)
  assume "findByPk_fault e = None \<and> (truthy (referenceId d) \<longrightarrow> findOne_fault e = None)
           \<and> \<not> duplicate d (reads t db)
           \<and> (\<exists>w. find (\<lambda>w. wallet_id w = walletId d) (wallets (reads t db)) = Some w
                  \<and> \<not> isNaN (balance w))"
  with neg have "validate e d t db
                   = Inl (new_ErrorType ''InvalidAmountError'' ''Amount cannot be negative'')"
    by (auto simp: validate_def findByPk_def findOne_def duplicate_def split: option.splits)
  then show "result (createTransactionRepo e d t db)
               = Inl (new_ErrorType ''InvalidAmountError'' ''Amount cannot be negative'')"
    by (simp add: repo_validate_Inl rethrow_def new_ErrorType_def or_default_def)
next
  fix err
  assume a: "\<not> lt (amount d) (Num 0) \<and> (\<forall>f \<in> set (faults e). name f \<noteq> Some ''InvalidAmountError'')"
    and err: "result (createTransactionRepo e d t db) = Inl err"
  show "name err \<noteq> Some ''InvalidAmountError''"
  proof
    assume n: "name err = Some ''InvalidAmountError''"
    from repo_Inl_source[OF err] a n obtain f where f: "f \<in> set (faults e)" "err = rethrow f"
      by blast
    with n have "name (rethrow f) = Some ''InvalidAmountError''" by simp
    then have "name f = Some ''InvalidAmountError''" by (rule rethrow_name_eq) simp
    with a f(1) show False by blast
  qed
qed

text \<open>The theorem at a deposit of -5 and at a deposit of 0.\<close>

theorem negative_amount_rejected_witness:
  "createTransactionRepo ex_env ((ex_deposit None)\<lparr>amount := Num (- 5)\<rparr>) None ex_db
     = \<lparr>result = Inl (new_ErrorType ''InvalidAmountError'' ''Amount cannot be negative''),
        committed = ex_db, caller_uow = None, own_uow = None, lifecycle = []\<rparr>
   \<and> result (createTransactionRepo ex_env ((ex_deposit None)\<lparr>amount := Num 0\<rparr>) None ex_db)
       \<noteq> Inl (new_ErrorType ''InvalidAmountError'' ''Amount cannot be negative'')"
proof -
  let ?neg = "(ex_deposit None)\<lparr>amount := Num (- 5)\<rparr>"
  let ?zero = "(ex_deposit None)\<lparr>amount := Num 0\<rparr>"
  have pre: "amount ?neg = Num (- 5) \<and> (- 5 :: real) < 0"
    "findByPk_fault ex_env = None \<and> (truthy (referenceId ?neg) \<longrightarrow> findOne_fault ex_env = None)
       \<and> \<not> duplicate ?neg (reads None ex_db)
       \<and> (\<exists>w. find (\<lambda>w. wallet_id w = walletId ?neg) (wallets (reads None ex_db)) = Some w
              \<and> \<not> isNaN (balance w))"
    by (simp_all add: duplicate_def truthy_def reads_def ex_defs)
  from negative_amount_rejected[of ?neg ex_env None ex_db] pre
  have 1: "createTransactionRepo ex_env ?neg None ex_db
     = \<lparr>result = Inl (new_ErrorType ''InvalidAmountError'' ''Amount cannot be negative''),
        committed = ex_db, caller_uow = None, own_uow = None, lifecycle = []\<rparr>"
    by (metis outcome.select_convs(1))
  have pre0: "\<not> lt (amount ?zero) (Num 0)
      \<and> (\<forall>f \<in> set (faults ex_env). name f \<noteq> Some ''InvalidAmountError'')"
    by (simp add: faults_def ex_defs)
  have n: "name (new_ErrorType ''InvalidAmountError'' ''Amount cannot be negative'')
             = Some ''InvalidAmountError''"
    by (simp add: new_ErrorType_def)
  from negative_amount_rejected[of ?zero ex_env None ex_db] pre0 n
  have 2: "result (createTransactionRepo ex_env ?zero None ex_db)
       \<noteq> Inl (new_ErrorType ''InvalidAmountError'' ''Amount cannot be negative'')"
    by blast
  from 1 2 show ?thesis by blast
qed

text \<open>The claim as first stated fails for a wallet that does not exist: the wallet lookup
  of lines 25 to 30 comes before the amount check of line 59, and the deposit of -5 to the
  missing wallet 99 fails with \<open>NotFoundError\<close>.\<close>

theorem negative_amount_missing_wallet_counterexample:
  "amount ex_missing = Num (- 5)
   \<and> walletId ex_missing = 99
   \<and> map wallet_id (wallets ex_db) = [1]
   \<and> result (createTransactionRepo ex_env ex_missing None ex_db)
       = Inl (new_ErrorType ''NotFoundError'' ''Wallet not found'')"
  by (simp add: engine_defs ex_defs)

section \<open>Rethrown errors\<close>

lemma repo_Inr_no_fault:
  assumes "result (createTransactionRepo e d t db) = Inr row"
  shows "findByPk_fault e = None" and "truthy (referenceId d) \<Longrightarrow> findOne_fault e = None"
    and "create_fault e = None" and "save_fault e = None"
    and "t = None \<Longrightarrow> begin_fault e = None" and "t = None \<Longrightarrow> commit_fault e = None"
proof -
  have "findByPk_fault e = None \<and> (truthy (referenceId d) \<longrightarrow> findOne_fault e = None)
        \<and> create_fault e = None \<and> save_fault e = None
        \<and> (t = None \<longrightarrow> begin_fault e = None \<and> commit_fault e = None)"
  proof (cases rule: repo_cases[of e d t db])
    case (validate_Inl err)
    with assms show ?thesis by (simp add: repo_validate_Inl)
  next
    case (caller u w r u')
    with assms have "r = Inr row" by (cases r) (auto simp: repo_caller)
    with try_body_Inr[of e d w "balance w" "amount d" u row u'] caller(3)
      validate_Inr(1,8)[OF caller(2)] caller(1)
    show ?thesis by auto
  next
    case (begin_fault w err)
    with assms show ?thesis by (simp add: repo_begin_fault)
  next
    case (own_Inl w err u')
    with assms show ?thesis by (simp add: repo_own_Inl split: option.splits)
  next
    case (own_Inr w row' u')
    with assms have "commit_fault e = None" by (auto simp: repo_own_Inr split: option.splits)
    with try_body_Inr[OF own_Inr(4)] validate_Inr(1,8)[OF own_Inr(2)] own_Inr(3)
    show ?thesis by auto
  qed
  then show "findByPk_fault e = None" and "truthy (referenceId d) \<Longrightarrow> findOne_fault e = None"
    and "create_fault e = None" and "save_fault e = None"
    and "t = None \<Longrightarrow> begin_fault e = None" and "t = None \<Longrightarrow> commit_fault e = None"
    by blast+
qed

lemma rethrow_fields:
  "name (rethrow f) = Some (if name f = None \<or> name f = Some [] then ''TransactionCreationError''
                            else the (name f))"
  "message (rethrow f) = Some (if message f = None \<or> message f = Some []
                               then ''Failed to create transaction'' else the (message f))"
  "code (rethrow f) = code f"
  by (auto simp: rethrow_def or_default_def split: option.splits)

lemma typed_errors_fields:
  assumes "err \<in> set (typed_errors d)"
  shows "\<exists>n m. name err = Some n \<and> n \<noteq> [] \<and> message err = Some m \<and> m \<noteq> []"
  using assms by (auto simp: typed_errors_def new_ErrorType_def)

lemma validate_throws:
  "findByPk_fault e = Some f \<Longrightarrow> validate e d t db = Inl f"
  "findByPk_fault e = None \<Longrightarrow>
   find (\<lambda>w. wallet_id w = walletId d) (wallets (reads t db)) = Some w \<Longrightarrow>
   truthy (referenceId d) \<Longrightarrow> findOne_fault e = Some f \<Longrightarrow> validate e d t db = Inl f"
  by (simp_all add: validate_def findByPk_def findOne_def)

lemma try_body_throws:
  "create_fault e = Some f \<Longrightarrow> try_body e d w bal amt u = (Inl f, u)"
  "create_fault e = None \<Longrightarrow> update_balance d w bal amt = Inl raw \<Longrightarrow>
   fst (try_body e d w bal amt u) = Inl raw"
  "create_fault e = None \<Longrightarrow> update_balance d w bal amt = Inr w' \<Longrightarrow> save_fault e = Some f \<Longrightarrow>
   fst (try_body e d w bal amt u) = Inl f"
  by (simp_all add: try_body_def create_def save_def)

lemma failure_named:
  assumes "result (createTransactionRepo e d t db) = Inl err"
  shows "\<exists>n m. name err = Some n \<and> n \<noteq> [] \<and> message err = Some m \<and> m \<noteq> []"
proof -
  from repo_Inl_source[OF assms]
  have "(\<exists>f \<in> set (faults e). err = rethrow f) \<or> err \<in> set (typed_errors d)" by blast
  then show ?thesis
  proof
    assume "\<exists>f \<in> set (faults e). err = rethrow f"
    then obtain f where "err = rethrow f" by blast
    then show ?thesis by (auto simp: rethrow_def or_default_def split: option.splits)
  next
    assume "err \<in> set (typed_errors d)"
    then show ?thesis by (rule typed_errors_fields)
  qed
qed

text \<open>
  C8 (as amended). Every value thrown inside \<open>createTransactionRepo\<close> is raised again to the
  caller as a typed error built from that value, provided that the rollback of a unit of
  work the call opened, when the inner \<^verbatim>\<open>catch\<close> issues it, does not itself throw. This
  holds for a value thrown in the first half (by the wallet lookup, by the duplicate
  lookup, or one of the errors \<open>NotFoundError\<close>, \<open>DuplicateTransactionError\<close>,
  \<open>InvalidDataError\<close>, \<open>InvalidAmountError\<close>), for a value thrown when the unit of work is
  opened, for a value thrown in the body of the inner \<^verbatim>\<open>try\<close> (by the insert, by the save, or
  one of the errors \<open>InsufficientFundsError\<close>, \<open>InvalidTypeError\<close>), and for a value thrown by
  the commit; a storage call that is reached and throws does throw in this sense. The kind
  of the typed error is the name of the value when it has a non-empty one and
  \<open>TransactionCreationError\<close> otherwise, its message is the message of the value when it
  has a non-empty one and \<open>Failed to create transaction\<close> otherwise, and its code is the
  code of the value; the six errors the function constructs are raised again unchanged.
  Every failure has a non-empty kind and a non-empty message, and no failure is
  swallowed: when the call succeeds, none of the storage calls it issued has thrown.
\<close>

theorem errors_rethrown_typed:
  "(\<forall>raw. validate e d t db = Inl raw \<longrightarrow>
      result (createTransactionRepo e d t db) = Inl (rethrow raw))
   \<and> (\<forall>w bal amt. validate e d t db = Inr (w, bal, amt) \<longrightarrow>
        (\<forall>u raw u'. t = Some u \<and> try_body e d w bal amt u = (Inl raw, u') \<longrightarrow>
           result (createTransactionRepo e d t db) = Inl (rethrow raw))
        \<and> (\<forall>raw. t = None \<and> begin_fault e = Some raw \<longrightarrow>
             result (createTransactionRepo e d t db) = Inl (rethrow raw))
        \<and> (\<forall>raw u'. t = None \<and> begin_fault e = None \<and> rollback_fault e = None
               \<and> try_body e d w bal amt \<lparr>view = db, state = Active\<rparr> = (Inl raw, u') \<longrightarrow>
             result (createTransactionRepo e d t db) = Inl (rethrow raw))
        \<and> (\<forall>raw row u'. t = None \<and> begin_fault e = None \<and> rollback_fault e = None
               \<and> try_body e d w bal amt \<lparr>view = db, state = Active\<rparr> = (Inr row, u')
               \<and> commit_fault e = Some raw \<longrightarrow>
             result (createTransactionRepo e d t db) = Inl (rethrow raw)))
   \<and> (\<forall>f. findByPk_fault e = Some f \<longrightarrow> validate e d t db = Inl f)
   \<and> (\<forall>f w. findByPk_fault e = None
          \<and> find (\<lambda>w. wallet_id w = walletId d) (wallets (reads t db)) = Some w
          \<and> truthy (referenceId d) \<and> findOne_fault e = Some f \<longrightarrow>
          validate e d t db = Inl f)
   \<and> (\<forall>f w bal amt u. create_fault e = Some f \<longrightarrow>
          fst (try_body e d w bal amt u) = Inl f)
   \<and> (\<forall>f w bal amt u w'. create_fault e = None \<and> update_balance d w bal amt = Inr w'
          \<and> save_fault e = Some f \<longrightarrow>
          fst (try_body e d w bal amt u) = Inl f)
   \<and> (\<forall>raw w bal amt u. create_fault e = None \<and> update_balance d w bal amt = Inl raw \<longrightarrow>
          fst (try_body e d w bal amt u) = Inl raw)
   \<and> (\<forall>f. name (rethrow f)
             = Some (if name f = None \<or> name f = Some [] then ''TransactionCreationError''
                     else the (name f))
          \<and> message (rethrow f)
             = Some (if message f = None \<or> message f = Some []
                     then ''Failed to create transaction'' else the (message f))
          \<and> code (rethrow f) = code f)
   \<and> (\<forall>err. err \<in> set (typed_errors d) \<longrightarrow> rethrow err = err)
   \<and> (\<forall>err. result (createTransactionRepo e d t db) = Inl err \<longrightarrow>
          (\<exists>n m. name err = Some n \<and> n \<noteq> [] \<and> message err = Some m \<and> m \<noteq> []))
   \<and> (\<forall>row. result (createTransactionRepo e d t db) = Inr row \<longrightarrow>
          findByPk_fault e = None \<and> (truthy (referenceId d) \<longrightarrow> findOne_fault e = None)
          \<and> create_fault e = None \<and> save_fault e = None
          \<and> (t = None \<longrightarrow> begin_fault e = None \<and> commit_fault e = None))"
proof (intro conjI allI impI)
  fix raw assume "validate e d t db = Inl raw"
  then show "result (createTransactionRepo e d t db) = Inl (rethrow raw)"
    by (simp add: repo_validate_Inl)
next
  fix w bal amt u raw u'
  assume "validate e d t db = Inr (w, bal, amt)"
    and "t = Some u \<and> try_body e d w bal amt u = (Inl raw, u')"
  then show "result (createTransactionRepo e d t db) = Inl (rethrow raw)"
    by (simp add: repo_caller)
next
  fix w bal amt raw
  assume "validate e d t db = Inr (w, bal, amt)" and "t = None \<and> begin_fault e = Some raw"
  then show "result (createTransactionRepo e d t db) = Inl (rethrow raw)"
    by (simp add: repo_begin_fault)
next
  fix w bal amt raw u'
  assume "validate e d t db = Inr (w, bal, amt)"
    and "t = None \<and> begin_fault e = None \<and> rollback_fault e = None
           \<and> try_body e d w bal amt \<lparr>view = db, state = Active\<rparr> = (Inl raw, u')"
  then show "result (createTransactionRepo e d t db) = Inl (rethrow raw)"
    by (simp add: repo_own_Inl)
next
  fix w bal amt raw row u'
  assume "validate e d t db = Inr (w, bal, amt)"
    and "t = None \<and> begin_fault e = None \<and> rollback_fault e = None
           \<and> try_body e d w bal amt \<lparr>view = db, state = Active\<rparr> = (Inr row, u')
           \<and> commit_fault e = Some raw"
  then show "result (createTransactionRepo e d t db) = Inl (rethrow raw)"
    by (simp add: repo_own_Inr)
next
  fix f assume "findByPk_fault e = Some f"
  then show "validate e d t db = Inl f" by (rule validate_throws(1))
next
  fix f w
  assume "findByPk_fault e = None
          \<and> find (\<lambda>w. wallet_id w = walletId d) (wallets (reads t db)) = Some w
          \<and> truthy (referenceId d) \<and> findOne_fault e = Some f"
  then show "validate e d t db = Inl f" by (intro validate_throws(2)) simp_all
next
  fix f :: ErrorType and w bal amt u
  assume "create_fault e = Some f"
  then show "fst (try_body e d w bal amt u) = Inl f" by (simp add: try_body_throws(1))
next
  fix f w bal amt u w'
  assume "create_fault e = None \<and> update_balance d w bal amt = Inr w' \<and> save_fault e = Some f"
  then show "fst (try_body e d w bal amt u) = Inl f" by (intro try_body_throws(3)) simp_all
next
  fix raw w bal amt u
  assume "create_fault e = None \<and> update_balance d w bal amt = Inl raw"
  then show "fst (try_body e d w bal amt u) = Inl raw" by (intro try_body_throws(2)) simp_all
next
  fix err assume "err \<in> set (typed_errors d)"
  then show "rethrow err = err" by (rule rethrow_typed)
next
  fix err assume "result (createTransactionRepo e d t db) = Inl err"
  then show "\<exists>n m. name err = Some n \<and> n \<noteq> [] \<and> message err = Some m \<and> m \<noteq> []"
    by (rule failure_named)
qed (use repo_Inr_no_fault[of e d t db] rethrow_fields in auto)

text \<open>The theorem at a save that throws a value without a name, and at a call in which
  nothing is thrown.\<close>

theorem errors_rethrown_typed_witness:
  "result (createTransactionRepo (ex_env\<lparr>save_fault := Some ex_unnamed_fault\<rparr>) (ex_pay 30) None
             ex_db)
     = Inl \<lparr>name = Some ''TransactionCreationError'', message = Some ''lock wait timeout'',
            code = Some ''1205''\<rparr>
   \<and> result (createTransactionRepo ex_env (ex_pay 30) None ex_db)
     = Inr (new_row ex_env (ex_pay 30))
   \<and> save_fault ex_env = None"
proof -
  let ?e = "ex_env\<lparr>save_fault := Some ex_unnamed_fault\<rparr>"
  let ?u = "\<lparr>view = ex_db, state = Active\<rparr>"
  note th = errors_rethrown_typed[of ?e "ex_pay 30" None ex_db]
  have val: "validate ?e (ex_pay 30) None ex_db = Inr (ex_wallet, Num 70, Num 30)"
    by (simp add: validate_def findByPk_def reads_def truthy_def ex_defs)
  have pre: "create_fault ?e = None"
    "update_balance (ex_pay 30) ex_wallet (Num 70) (Num 30)
       = Inr (ex_wallet\<lparr>balance := sub (Num 70) (Num 30)\<rparr>)"
    "save_fault ?e = Some ex_unnamed_fault"
    "begin_fault ?e = None" "rollback_fault ?e = None"
    by (simp_all add: update_balance_def ex_defs)
  from th pre(1,2,3)
  have "fst (try_body ?e (ex_pay 30) ex_wallet (Num 70) (Num 30) ?u) = Inl ex_unnamed_fault"
    by blast
  then obtain u' where
    tb: "try_body ?e (ex_pay 30) ex_wallet (Num 70) (Num 30) ?u = (Inl ex_unnamed_fault, u')"
    by (cases "try_body ?e (ex_pay 30) ex_wallet (Num 70) (Num 30) ?u") simp
  note own = th[THEN conjunct2, THEN conjunct1, rule_format, OF val, THEN conjunct2,
      THEN conjunct2, THEN conjunct1, rule_format]
  from pre(4,5) tb
  have r: "result (createTransactionRepo ?e (ex_pay 30) None ex_db) = Inl (rethrow ex_unnamed_fault)"
    by (intro own) simp
  have n: "name ex_unnamed_fault = None" "message ex_unnamed_fault = Some ''lock wait timeout''"
    "code ex_unnamed_fault = Some ''1205''"
    by (simp_all add: ex_defs)
  from th n
  have "name (rethrow ex_unnamed_fault) = Some ''TransactionCreationError''
        \<and> message (rethrow ex_unnamed_fault) = Some ''lock wait timeout''
        \<and> code (rethrow ex_unnamed_fault) = Some ''1205''"
    by simp
  then have "rethrow ex_unnamed_fault
               = \<lparr>name = Some ''TransactionCreationError'', message = Some ''lock wait timeout'',
                  code = Some ''1205''\<rparr>"
    by (cases "rethrow ex_unnamed_fault") simp
  with r have 1: "result (createTransactionRepo ?e (ex_pay 30) None ex_db)
     = Inl \<lparr>name = Some ''TransactionCreationError'', message = Some ''lock wait timeout'',
            code = Some ''1205''\<rparr>"
    by simp
  have ok: "result (createTransactionRepo ex_env (ex_pay 30) None ex_db)
              = Inr (new_row ex_env (ex_pay 30))"
    by (simp add: engine_defs ex_defs)
  from errors_rethrown_typed[of ex_env "ex_pay 30" None ex_db] ok
  have 2: "save_fault ex_env = None" by blast
  from 1 ok 2 show ?thesis by blast
qed

text \<open>The claim as first stated fails for a thrown value that has a name: a lookup that
  throws a connection error makes the call fail with an error of the kind
  \<open>SequelizeConnectionError\<close>, which is none of the six kinds and is not
  \<open>TransactionCreationError\<close>.\<close>

theorem named_fault_keeps_name_counterexample:
  "result (createTransactionRepo (ex_env\<lparr>findByPk_fault := Some ex_named_fault\<rparr>) (ex_pay 30)
             None ex_db)
     = Inl \<lparr>name = Some ''SequelizeConnectionError'', message = Some ''connect ECONNREFUSED'',
            code = Some ''ECONNREFUSED''\<rparr>
   \<and> ''SequelizeConnectionError'' \<noteq> ''TransactionCreationError''
   \<and> ex_named_fault \<notin> set (typed_errors (ex_pay 30))"
  by (simp add: engine_defs typed_errors_def ex_defs)

text \<open>Outside the amended claim: when the rollback of a unit of work the call opened
  throws, the value it throws replaces the one thrown before, whose name, message and code
  are lost.\<close>

lemma rollback_fault_replaces_error:
  assumes "validate e d None db = Inr (w, bal, amt)" and "begin_fault e = None"
    and "try_body e d w bal amt \<lparr>view = db, state = Active\<rparr> = (Inl raw, u')"
    and "rollback_fault e = Some f"
  shows "result (createTransactionRepo e d None db) = Inl (rethrow f)"
  using assms by (simp add: repo_own_Inl)


section \<open>Pagination of the list\<close>

text \<open>
  C9. When \<open>getListTransactionRepo\<close> returns, the total is the number of rows the filter
  selects, whatever the page and the limit are; the window of \<open>limit\<close> rows after the first
  \<open>(page - 1) * limit\<close> is applied exactly when both page and limit are supplied and
  positive, and otherwise all selected rows are returned; the rows are taken from the
  selected rows ordered by creation time, latest first; and page 2 with limit 10 returns
  the rows 11 to 20 of that order.
\<close>

theorem pagination_correct:
  assumes "getListTransactionRepo q f db = Inr (rows, n)"
  shows "n = length (filter (matches (build_where f)) (transactions db))
       \<and> (\<forall>p l. page f = Some p \<and> limit f = Some l \<and> 0 < p \<and> 0 < l \<longrightarrow>
             rows = take (nat l) (drop (nat ((p - 1) * l))
                      (order_desc (filter (matches (build_where f)) (transactions db)))))
       \<and> (\<not> (\<exists>p l. page f = Some p \<and> limit f = Some l \<and> 0 < p \<and> 0 < l) \<longrightarrow>
             rows = order_desc (filter (matches (build_where f)) (transactions db)))
       \<and> (page f = Some 2 \<and> limit f = Some 10 \<longrightarrow>
             rows = take 10 (drop 10
                      (order_desc (filter (matches (build_where f)) (transactions db)))))
       \<and> sorted_wrt (\<lambda>x y. createdAt y \<le> createdAt x)
            (order_desc (filter (matches (build_where f)) (transactions db)))
       \<and> mset (order_desc (filter (matches (build_where f)) (transactions db)))
           = mset (filter (matches (build_where f)) (transactions db))
       \<and> sorted_wrt (\<lambda>x y. createdAt y \<le> createdAt x) rows
       \<and> (\<forall>p l rows' n'. getListTransactionRepo q (f\<lparr>page := p, limit := l\<rparr>) db = Inr (rows', n')
             \<longrightarrow> n' = n)"
proof -
  let ?all = "order_desc (filter (matches (build_where f)) (transactions db))"
  note r = getList_Inr[OF assms]
  have 1: "rows = take (nat l) (drop (nat ((p - 1) * l)) ?all)"
    if "page f = Some p \<and> limit f = Some l \<and> 0 < p \<and> 0 < l" for p l
  proof -
    from that have "pagination f = Some ((p - 1) * l, l)" unfolding pagination_Some by blast
    with r(2) show ?thesis by simp
  qed
  have 2: "rows = ?all" if "\<not> (\<exists>p l. page f = Some p \<and> limit f = Some l \<and> 0 < p \<and> 0 < l)"
  proof -
    from that have "pagination f = None" unfolding pagination_None .
    with r(2) show ?thesis by simp
  qed
  have 3: "rows = take 10 (drop 10 ?all)" if "page f = Some 2 \<and> limit f = Some 10"
    using 1[of 2 10] that by simp
  have 4: "sorted_wrt (\<lambda>x y. createdAt y \<le> createdAt x) rows"
    using r(2) order_desc_sorted[of "filter (matches (build_where f)) (transactions db)"]
    by (auto simp: sorted_wrt_take sorted_wrt_drop split: option.splits)
  have 5: "n' = n" if "getListTransactionRepo q (f\<lparr>page := p, limit := l\<rparr>) db = Inr (rows', n')"
    for p l rows' n'
    using getList_Inr(1)[OF that] r(1) by (simp add: build_where_def)
  from r(1) 1 2 3 4 5 order_desc_sorted order_desc_mset show ?thesis by blast
qed

text \<open>The theorem at three rows, page 2 and limit 1.\<close>

theorem pagination_correct_witness:
  "getListTransactionRepo ex_query_env (ex_filters\<lparr>page := Some 2, limit := Some 1\<rparr>) ex_rows
     = Inr ([ex_row 2 2 20], 3)
   \<and> 3 = length (filter (matches (build_where (ex_filters\<lparr>page := Some 2, limit := Some 1\<rparr>)))
                  (transactions ex_rows))
   \<and> [ex_row 2 2 20]
       = take (nat 1) (drop (nat ((2 - 1) * 1))
           (order_desc (filter (matches (build_where (ex_filters\<lparr>page := Some 2, limit := Some 1\<rparr>)))
                          (transactions ex_rows))))"
proof -
  let ?f = "ex_filters\<lparr>page := Some 2, limit := Some 1\<rparr>"
  have ev: "getListTransactionRepo ex_query_env ?f ex_rows = Inr ([ex_row 2 2 20], 3)"
    by (simp add: query_defs ex_defs)
  have pl: "page ?f = Some 2 \<and> limit ?f = Some 1 \<and> (0::int) < 2 \<and> (0::int) < 1"
    by (simp add: ex_defs)
  from pagination_correct[OF ev] pl
  have "3 = length (filter (matches (build_where ?f)) (transactions ex_rows))"
    and "[ex_row 2 2 20]
       = take (nat 1) (drop (nat ((2 - 1) * 1))
           (order_desc (filter (matches (build_where ?f)) (transactions ex_rows))))"
    by blast+
  with ev show ?thesis by blast
qed

section \<open>Filtering of the list\<close>

lemma matches_build_where:
  assumes "matches (build_where f) x"
  shows "\<not> isDeleted x"
    and "walletId' f = Some w \<Longrightarrow> w \<noteq> 0 \<Longrightarrow> walletId x = w"
    and "status' f = Some s \<Longrightarrow> status x = s"
    and "type' f = Some ty \<Longrightarrow> type x = ty"
    and "start_date f = Some a \<Longrightarrow> a \<le> createdAt x"
    and "end_date f = Some b \<Longrightarrow> createdAt x \<le> b"
  using assms by (auto simp: matches_def build_where_def split: option.splits if_splits)

lemma getList_rows_subset:
  assumes "getListTransactionRepo q f db = Inr (rows, n)"
  shows "set rows \<subseteq> {x \<in> set (transactions db). matches (build_where f) x}"
proof -
  have "set rows \<subseteq> set (order_desc (filter (matches (build_where f)) (transactions db)))"
    using getList_Inr(2)[OF assms]
    by (auto dest: in_set_takeD in_set_dropD split: option.splits)
  then show ?thesis by (auto simp: order_desc_def)
qed

text \<open>
  C10 (as amended). When \<open>getListTransactionRepo\<close> returns, every row of the result is a row
  of the table that is not deleted; it has the wallet id of the filter when the filter
  supplies one other than 0; its creation time is at or after \<open>start_date\<close> and at or before
  \<open>end_date\<close>, for each of the two that is supplied; and it has the status and the type of
  the filter when supplied. A wallet id of 0 counts as not supplied.
\<close>

theorem filtering_correct:
  assumes "getListTransactionRepo q f db = Inr (rows, n)"
  shows "\<forall>x \<in> set rows.
           x \<in> set (transactions db)
           \<and> \<not> isDeleted x
           \<and> (\<forall>w. walletId' f = Some w \<and> w \<noteq> 0 \<longrightarrow> walletId x = w)
           \<and> (\<forall>a. start_date f = Some a \<longrightarrow> a \<le> createdAt x)
           \<and> (\<forall>b. end_date f = Some b \<longrightarrow> createdAt x \<le> b)
           \<and> (\<forall>s. status' f = Some s \<longrightarrow> status x = s)
           \<and> (\<forall>ty. type' f = Some ty \<longrightarrow> type x = ty)"
proof
  fix x assume "x \<in> set rows"
  with getList_rows_subset[OF assms]
  have row: "x \<in> set (transactions db)" and m: "matches (build_where f) x"
    by auto
  note sel = matches_build_where[OF m]
  from sel(1) have "\<not> isDeleted x" .
  moreover from sel(2) have "\<forall>w. walletId' f = Some w \<and> w \<noteq> 0 \<longrightarrow> walletId x = w" by blast
  moreover from sel(5) have "\<forall>a. start_date f = Some a \<longrightarrow> a \<le> createdAt x" by blast
  moreover from sel(6) have "\<forall>b. end_date f = Some b \<longrightarrow> createdAt x \<le> b" by blast
  moreover from sel(3) have "\<forall>s. status' f = Some s \<longrightarrow> status x = s" by blast
  moreover from sel(4) have "\<forall>ty. type' f = Some ty \<longrightarrow> type x = ty" by blast
  ultimately show "x \<in> set (transactions db)
           \<and> \<not> isDeleted x
           \<and> (\<forall>w. walletId' f = Some w \<and> w \<noteq> 0 \<longrightarrow> walletId x = w)
           \<and> (\<forall>a. start_date f = Some a \<longrightarrow> a \<le> createdAt x)
           \<and> (\<forall>b. end_date f = Some b \<longrightarrow> createdAt x \<le> b)
           \<and> (\<forall>s. status' f = Some s \<longrightarrow> status x = s)
           \<and> (\<forall>ty. type' f = Some ty \<longrightarrow> type x = ty)"
    using row by blast
qed

text \<open>The theorem at the filter for wallet 1 from the time 20 on.\<close>

theorem filtering_correct_witness:
  "getListTransactionRepo ex_query_env (ex_filters\<lparr>walletId' := Some 1, start_date := Some 20\<rparr>)
     ex_rows = Inr ([ex_row 3 1 30], 1)
   \<and> \<not> isDeleted (ex_row 3 1 30) \<and> walletId (ex_row 3 1 30) = 1
   \<and> 20 \<le> createdAt (ex_row 3 1 30)"
proof -
  let ?f = "ex_filters\<lparr>walletId' := Some 1, start_date := Some 20\<rparr>"
  have ev: "getListTransactionRepo ex_query_env ?f ex_rows = Inr ([ex_row 3 1 30], 1)"
    by (simp add: query_defs ex_defs)
  have f: "walletId' ?f = Some 1 \<and> (1::int) \<noteq> 0" "start_date ?f = Some 20"
    by (simp_all add: ex_defs)
  from filtering_correct[OF ev] f
  have "\<not> isDeleted (ex_row 3 1 30) \<and> walletId (ex_row 3 1 30) = 1
        \<and> 20 \<le> createdAt (ex_row 3 1 30)"
    by simp
  with ev show ?thesis by blast
qed

text \<open>The claim as first stated fails for the wallet id 0: the filter supplies it, and the
  result holds rows of the wallets 1 and 2.\<close>

theorem wallet_zero_not_filtered_counterexample:
  "walletId' (ex_filters\<lparr>walletId' := Some 0\<rparr>) = Some 0
   \<and> getListTransactionRepo ex_query_env (ex_filters\<lparr>walletId' := Some 0\<rparr>) ex_rows
       = Inr ([ex_row 3 1 30, ex_row 2 2 20, ex_row 1 1 10], 3)
   \<and> walletId (ex_row 3 1 30) \<noteq> 0"
  by (simp add: query_defs ex_defs)

end
